theory Spec2Isabelle
  imports Main "HOL-Library.Sublist"
begin

section \<open>Go values used by the model\<close>

text \<open>
  A Go \<open>string\<close> is a byte sequence: \<^typ>\<open>string\<close>. A Go \<open>error\<close> is modelled by its
  message; \<open>nil\<close> is \<open>None\<close> (or the \<open>Inr\<close> side of a sum). A nil slice is the empty list.
\<close>

type_synonym error = string

definition nl :: string where
  "nl = [CHR 0x0A]"

text \<open>\<open>strings.Join\<close>.\<close>

fun Join :: "string list \<Rightarrow> string \<Rightarrow> string" where
  "Join [] sep = []"
| "Join [x] sep = x"
| "Join (x # y # ys) sep = x @ sep @ Join (y # ys) sep"

section \<open>Package ir: plugins, registry, merge (unnamed/part_002)\<close>

record Warning =
  Message :: string
  Path :: string

text \<open>
  \<open>instructions.SpecSource\<close>: the fields the source files read. Further fields
  (filters, limits) live in the record's extension slot.
\<close>

record SpecSource =
  Type :: string
  SrcPath :: string
  URL :: string
  Command :: string
  Binary :: string

text \<open>
  \<open>ir.IntermediateRepr\<close>. The element types (\<open>Operation\<close>, \<open>TypeDef\<close>, \<open>AuthScheme\<close>,
  \<open>Group\<close>) are declared in a file that is not among the sources; they are type
  parameters. The four sequences are Go slices, \<open>Metadata\<close> is a \<open>map[string]string\<close>.
\<close>

record ('op, 'ty, 'au, 'gr) IntermediateRepr =
  Operations :: "'op list"
  Types :: "'ty list"
  Auth :: "'au list"
  Groups :: "'gr list"
  Metadata :: "string \<rightharpoonup> string"

text \<open>
  The \<open>SpecPlugin\<close> interface: one record of methods per plugin. \<open>Fetch\<close> and \<open>Parse\<close>
  return \<open>(value, error)\<close>; a non-nil error is \<open>Inl\<close>.
\<close>

record ('op, 'ty, 'au, 'gr) SpecPlugin =
  Name :: string
  Detect :: "SpecSource \<Rightarrow> bool"
  Fetch :: "SpecSource \<Rightarrow> error + string"
  Parse :: "string \<Rightarrow> SpecSource \<Rightarrow> error + ('op, 'ty, 'au, 'gr) IntermediateRepr"
  Validate :: "('op, 'ty, 'au, 'gr) IntermediateRepr \<Rightarrow> Warning list"

record ('op, 'ty, 'au, 'gr) Registry =
  plugins :: "('op, 'ty, 'au, 'gr) SpecPlugin list"

definition NewRegistry :: "('op, 'ty, 'au, 'gr) Registry" where
  "NewRegistry = \<lparr>plugins = []\<rparr>"

definition Register ::
  "('op, 'ty, 'au, 'gr) Registry \<Rightarrow> ('op, 'ty, 'au, 'gr) SpecPlugin \<Rightarrow> ('op, 'ty, 'au, 'gr) Registry" where
  "Register r p = r\<lparr>plugins := plugins r @ [p]\<rparr>"

text \<open>The first loop of \<open>Registry.Detect\<close>: return at the first plugin that detects.\<close>

fun detect_loop ::
  "('op, 'ty, 'au, 'gr) SpecPlugin list \<Rightarrow> SpecSource \<Rightarrow> ('op, 'ty, 'au, 'gr) SpecPlugin option" where
  "detect_loop [] source = None"
| "detect_loop (p # ps) source = (if Detect p source then Some p else detect_loop ps source)"

text \<open>\<open>fmt\<close>'s \<open>%v\<close> of a \<open>[]string\<close>: the elements between brackets, space separated.\<close>

definition fmt_v :: "string list \<Rightarrow> string" where
  "fmt_v names = ''['' @ Join names '' '' @ '']''"

definition Registry_Detect ::
  "('op, 'ty, 'au, 'gr) Registry \<Rightarrow> SpecSource \<Rightarrow> error + ('op, 'ty, 'au, 'gr) SpecPlugin" where
  "Registry_Detect r source =
     (case detect_loop (plugins r) source of
        Some p \<Rightarrow> Inr p
      | None \<Rightarrow>
          Inl (''no plugin can handle spec source (registered: '' @ fmt_v (map Name (plugins r)) @ '')''))"

text \<open>
  Modelled from the spec: \<open>IntermediateRepr.Merge\<close> is called by \<open>ProcessSources\<close> but its
  body is not among the sources. The spec: combining fragment B into accumulator A appends
  B's operations, types, auth and groups to A's sequences (source order preserved) and
  overlays B's metadata entries onto A's, the later source winning on a key collision.
\<close>

definition Merge ::
  "('op, 'ty, 'au, 'gr) IntermediateRepr \<Rightarrow> ('op, 'ty, 'au, 'gr) IntermediateRepr
     \<Rightarrow> ('op, 'ty, 'au, 'gr) IntermediateRepr" where
  "Merge a b =
     a\<lparr>Operations := Operations a @ Operations b,
       Types := Types a @ Types b,
       Auth := Auth a @ Auth b,
       Groups := Groups a @ Groups b,
       Metadata := Metadata a ++ Metadata b\<rparr>"

text \<open>
  The loop of \<open>ProcessSources\<close>, with its two accumulators. The Go function returns the
  triple \<open>(*IntermediateRepr, []Warning, error)\<close>; every early return is
  \<open>return nil, nil, err\<close>.
\<close>

fun process_loop ::
  "('op, 'ty, 'au, 'gr) Registry \<Rightarrow> SpecSource list \<Rightarrow> ('op, 'ty, 'au, 'gr) IntermediateRepr
     \<Rightarrow> Warning list
     \<Rightarrow> ('op, 'ty, 'au, 'gr) IntermediateRepr option \<times> Warning list \<times> error option" where
  "process_loop r [] merged allWarnings = (Some merged, allWarnings, None)"
| "process_loop r (src # rest) merged allWarnings =
     (case Registry_Detect r src of
        Inl err \<Rightarrow> (None, [], Some err)
      | Inr plugin \<Rightarrow>
          (case Fetch plugin src of
             Inl err \<Rightarrow> (None, [], Some (''['' @ Name plugin @ ''] fetch: '' @ err))
           | Inr raw \<Rightarrow>
               (case Parse plugin raw src of
                  Inl err \<Rightarrow> (None, [], Some (''['' @ Name plugin @ ''] parse: '' @ err))
                | Inr parsed \<Rightarrow>
                    process_loop r rest (Merge merged parsed)
                      (allWarnings @ Validate plugin parsed))))"

definition empty_IR :: "('op, 'ty, 'au, 'gr) IntermediateRepr" where
  "empty_IR = \<lparr>Operations = [], Types = [], Auth = [], Groups = [], Metadata = Map.empty\<rparr>"

definition ProcessSources ::
  "('op, 'ty, 'au, 'gr) Registry \<Rightarrow> SpecSource list
     \<Rightarrow> ('op, 'ty, 'au, 'gr) IntermediateRepr option \<times> Warning list \<times> error option" where
  "ProcessSources r sources = process_loop r sources empty_IR []"

text \<open>
  What one iteration of the loop computes for one source, taken alone: the error of the
  first step that fails, or the parsed fragment with its validation warnings. It is used
  to state properties of the loop, not to define it.
\<close>

definition source_outcome ::
  "('op, 'ty, 'au, 'gr) Registry \<Rightarrow> SpecSource
     \<Rightarrow> error + (('op, 'ty, 'au, 'gr) IntermediateRepr \<times> Warning list)" where
  "source_outcome r src =
     (case Registry_Detect r src of
        Inl err \<Rightarrow> Inl err
      | Inr plugin \<Rightarrow>
          (case Fetch plugin src of
             Inl err \<Rightarrow> Inl (''['' @ Name plugin @ ''] fetch: '' @ err)
           | Inr raw \<Rightarrow>
               (case Parse plugin raw src of
                  Inl err \<Rightarrow> Inl (''['' @ Name plugin @ ''] parse: '' @ err)
                | Inr parsed \<Rightarrow> Inr (parsed, Validate plugin parsed))))"

definition fragment_of ::
  "('op, 'ty, 'au, 'gr) Registry \<Rightarrow> SpecSource \<Rightarrow> ('op, 'ty, 'au, 'gr) IntermediateRepr" where
  "fragment_of r src = (case source_outcome r src of Inr (parsed, ws) \<Rightarrow> parsed | Inl e \<Rightarrow> empty_IR)"

definition warnings_of :: "('op, 'ty, 'au, 'gr) Registry \<Rightarrow> SpecSource \<Rightarrow> Warning list" where
  "warnings_of r src = (case source_outcome r src of Inr (parsed, ws) \<Rightarrow> ws | Inl e \<Rightarrow> [])"

definition source_fails :: "('op, 'ty, 'au, 'gr) Registry \<Rightarrow> SpecSource \<Rightarrow> bool" where
  "source_fails r src = (case source_outcome r src of Inl e \<Rightarrow> True | Inr x \<Rightarrow> False)"

definition error_of :: "('op, 'ty, 'au, 'gr) Registry \<Rightarrow> SpecSource \<Rightarrow> error" where
  "error_of r src = (case source_outcome r src of Inl e \<Rightarrow> e | Inr x \<Rightarrow> [])"

section \<open>Properties of the registry\<close>

lemma detect_loop_find: "detect_loop ps source = List.find (\<lambda>p. Detect p source) ps"
  by (induction ps) simp_all

lemma process_loop_step:
  "process_loop r (src # rest) merged allWarnings =
     (case source_outcome r src of
        Inl e \<Rightarrow> (None, [], Some e)
      | Inr (parsed, ws) \<Rightarrow> process_loop r rest (Merge merged parsed) (allWarnings @ ws))"
  by (simp add: source_outcome_def split: sum.splits)

lemma process_loop_ok:
  "\<forall>s \<in> set srcs. \<not> source_fails r s \<Longrightarrow>
   process_loop r srcs merged allWarnings =
     (Some (foldl Merge merged (map (fragment_of r) srcs)),
      allWarnings @ concat (map (warnings_of r) srcs), None)"
proof (induction srcs arbitrary: merged allWarnings)
  case Nil
  show ?case by simp
next
  case (Cons s srcs)
  from Cons.prems obtain parsed ws where o: "source_outcome r s = Inr (parsed, ws)"
    by (auto simp: source_fails_def split: sum.splits)
  from Cons.prems have rest: "\<forall>s \<in> set srcs. \<not> source_fails r s" by simp
  show ?case
    unfolding process_loop_step
    by (simp add: o Cons.IH [OF rest] fragment_of_def warnings_of_def)
qed

lemma process_loop_fail:
  "List.find (source_fails r) srcs = Some s \<Longrightarrow>
   process_loop r srcs merged allWarnings = (None, [], Some (error_of r s))"
proof (induction srcs arbitrary: merged allWarnings)
  case Nil
  then show ?case by simp
next
  case (Cons a srcs)
  show ?case
  proof (cases "source_fails r a")
    case True
    with Cons.prems have "s = a" by simp
    with True show ?thesis
      unfolding process_loop_step
      by (auto simp: source_fails_def error_of_def split: sum.splits)
  next
    case False
    with Cons.prems have f: "List.find (source_fails r) srcs = Some s" by simp
    from False obtain parsed ws where o: "source_outcome r a = Inr (parsed, ws)"
      by (auto simp: source_fails_def split: sum.splits)
    show ?thesis
      unfolding process_loop_step by (simp add: o Cons.IH [OF f])
  qed
qed

lemma source_fails_iff:
  "source_fails r s =
     (case List.find (\<lambda>p. Detect p s) (plugins r) of
        None \<Rightarrow> True
      | Some p \<Rightarrow> (case Fetch p s of Inl e \<Rightarrow> True | Inr raw \<Rightarrow> isl (Parse p raw s)))"
  by (simp add: source_fails_def source_outcome_def Registry_Detect_def detect_loop_find
      split: option.splits sum.splits)

lemma find_source_fails:
  "\<exists>s \<in> set srcs. source_fails r s \<Longrightarrow> \<exists>s. List.find (source_fails r) srcs = Some s"
  by (cases "List.find (source_fails r) srcs") (auto simp: find_None_iff)

subsection \<open>A registry to run the properties on\<close>

text \<open>
  A plugin over strings: it handles sources of one type, fetches the source's path as the
  raw content (failing on an empty path), parses every raw content but \<open>bad\<close> into a
  one-operation fragment, and warns about the missing auth schemes.
\<close>

definition demo_plugin :: "string \<Rightarrow> (string, string, string, string) SpecPlugin" where
  "demo_plugin ty =
     \<lparr>Name = ty,
      Detect = (\<lambda>s. Type s = ty),
      Fetch = (\<lambda>s. if SrcPath s = [] then Inl ''no path'' else Inr (SrcPath s)),
      Parse = (\<lambda>raw s. if raw = ''bad'' then Inl ''syntax''
                 else Inr \<lparr>Operations = [raw, raw @ ''2''], Types = [raw @ ''T''], Auth = [],
                            Groups = [raw @ ''G''], Metadata = [''title'' \<mapsto> raw]\<rparr>),
      Validate = (\<lambda>i. if Auth i = [] then [\<lparr>Message = ''no auth in '' @ hd (Operations i), Path = ty\<rparr>] else [])\<rparr>"

definition demo_registry :: "(string, string, string, string) Registry" where
  "demo_registry = Register (Register NewRegistry (demo_plugin ''openapi'')) (demo_plugin ''cli'')"

definition demo_source :: "string \<Rightarrow> string \<Rightarrow> SpecSource" where
  "demo_source ty path = \<lparr>Type = ty, SrcPath = path, URL = [], Command = [], Binary = []\<rparr>"

lemma demo_outcome_ok:
  "source_outcome demo_registry (demo_source ''cli'' ''a'') =
     Inr (\<lparr>Operations = [''a'', ''a2''], Types = [''aT''], Auth = [], Groups = [''aG''],
            Metadata = [''title'' \<mapsto> ''a'']\<rparr>,
          [\<lparr>Message = ''no auth in a'', Path = ''cli''\<rparr>])"
  "source_outcome demo_registry (demo_source ''openapi'' ''b'') =
     Inr (\<lparr>Operations = [''b'', ''b2''], Types = [''bT''], Auth = [], Groups = [''bG''],
            Metadata = [''title'' \<mapsto> ''b'']\<rparr>,
          [\<lparr>Message = ''no auth in b'', Path = ''openapi''\<rparr>])"
  by (simp_all add: source_outcome_def Registry_Detect_def demo_registry_def Register_def
      NewRegistry_def demo_plugin_def demo_source_def)

lemma demo_outcome_fail:
  "source_outcome demo_registry (demo_source ''openapi'' ''bad'') = Inl ''[openapi] parse: syntax''"
  "source_outcome demo_registry (demo_source ''cli'' []) = Inl ''[cli] fetch: no path''"
  "source_outcome demo_registry (demo_source ''codebase'' ''.'') =
     Inl ''no plugin can handle spec source (registered: [openapi cli])''"
  by (simp_all add: source_outcome_def Registry_Detect_def demo_registry_def Register_def
      NewRegistry_def demo_plugin_def demo_source_def fmt_v_def)

subsection \<open>Merge order\<close>

text \<open>
  C6. When the sources \<open>[A, B]\<close> both resolve (to the fragments \<open>fa\<close> and \<open>fb\<close>),
  \<open>ProcessSources\<close> returns a merged IR whose operations are A's operations followed by
  B's, each in its own order, and likewise for types, auth schemes and groups. The
  warnings of A come before those of B. (\<open>Merge\<close> is modelled from the spec.)
\<close>

theorem merge_order_preservation:
  assumes "source_outcome r A = Inr (fa, wa)" and "source_outcome r B = Inr (fb, wb)"
  shows "\<exists>merged. ProcessSources r [A, B] = (Some merged, wa @ wb, None)
           \<and> Operations merged = Operations fa @ Operations fb
           \<and> Types merged = Types fa @ Types fb
           \<and> Auth merged = Auth fa @ Auth fb
           \<and> Groups merged = Groups fa @ Groups fb"
  using assms
  by (simp add: ProcessSources_def process_loop_step del: process_loop.simps(2))
     (simp add: Merge_def empty_IR_def)

theorem merge_order_preservation_witness:
  "\<exists>merged. ProcessSources demo_registry [demo_source ''cli'' ''a'', demo_source ''openapi'' ''b'']
       = (Some merged,
          [\<lparr>Message = ''no auth in a'', Path = ''cli''\<rparr>,
           \<lparr>Message = ''no auth in b'', Path = ''openapi''\<rparr>], None)
     \<and> Operations merged = [''a'', ''a2'', ''b'', ''b2'']
     \<and> Types merged = [''aT'', ''bT'']
     \<and> Auth merged = []
     \<and> Groups merged = [''aG'', ''bG'']"
  using merge_order_preservation [OF demo_outcome_ok(1) demo_outcome_ok(2)] by simp

subsection \<open>Nothing but the error on failure\<close>

text \<open>
  C10. When some source fails (no plugin matches it, or its fetch or its parse fails),
  \<open>ProcessSources\<close> returns a nil IR and a nil warnings list with the error, also when
  earlier sources were merged and had warnings; and whenever it returns an error, the
  IR and the warnings are nil.
\<close>

theorem failure_exposes_nothing:
  "((\<exists>s \<in> set sources. source_fails r s) \<longrightarrow>
      (\<exists>e. ProcessSources r sources = (None, [], Some e)))
   \<and> (\<forall>e. snd (snd (ProcessSources r sources)) = Some e \<longrightarrow>
          ProcessSources r sources = (None, [], Some e))"
proof (intro conjI impI allI)
  assume "\<exists>s \<in> set sources. source_fails r s"
  then obtain s where f: "List.find (source_fails r) sources = Some s"
    using find_source_fails by blast
  show "\<exists>e. ProcessSources r sources = (None, [], Some e)"
    unfolding ProcessSources_def using process_loop_fail [OF f] by blast
next
  fix e
  assume e: "snd (snd (ProcessSources r sources)) = Some e"
  show "ProcessSources r sources = (None, [], Some e)"
  proof (cases "\<exists>s \<in> set sources. source_fails r s")
    case True
    then obtain s where f: "List.find (source_fails r) sources = Some s"
      using find_source_fails by blast
    from process_loop_fail [OF f] e show ?thesis
      unfolding ProcessSources_def by simp
  next
    case False
    then have "\<forall>s \<in> set sources. \<not> source_fails r s" by simp
    from process_loop_ok [OF this] e show ?thesis
      unfolding ProcessSources_def by simp
  qed
qed

theorem failure_exposes_nothing_witness:
  "source_outcome demo_registry (demo_source ''cli'' ''a'') =
     Inr (\<lparr>Operations = [''a'', ''a2''], Types = [''aT''], Auth = [], Groups = [''aG''],
            Metadata = [''title'' \<mapsto> ''a'']\<rparr>,
          [\<lparr>Message = ''no auth in a'', Path = ''cli''\<rparr>])
   \<and> source_fails demo_registry (demo_source ''openapi'' ''bad'')
   \<and> ProcessSources demo_registry [demo_source ''cli'' ''a'', demo_source ''openapi'' ''bad'']
       = (None, [], Some ''[openapi] parse: syntax'')"
proof -
  let ?srcs = "[demo_source ''cli'' ''a'', demo_source ''openapi'' ''bad'']"
  have ko: "source_fails demo_registry (demo_source ''openapi'' ''bad'')"
    by (simp add: source_fails_def demo_outcome_fail)
  then have "\<exists>s \<in> set ?srcs. source_fails demo_registry s" by simp
  with failure_exposes_nothing [of ?srcs demo_registry]
  obtain e where e: "ProcessSources demo_registry ?srcs = (None, [], Some e)" by blast
  have "e = ''[openapi] parse: syntax''"
    using e by (simp add: ProcessSources_def process_loop_step demo_outcome_ok demo_outcome_fail
        del: process_loop.simps(2))
  with e ko demo_outcome_ok(1) show ?thesis by simp
qed

section \<open>Package generate: artifacts and the pipeline (internal/generate/generate.go)\<close>

subsection \<open>Standard-library string functions\<close>

text \<open>\<open>strings.Split(s, "\n")\<close>: the lines of \<open>s\<close>; one empty line for the empty string.\<close>

fun Split_nl :: "string \<Rightarrow> string list" where
  "Split_nl [] = [[]]"
| "Split_nl (c # cs) =
     (if c = CHR 0x0A then [] # Split_nl cs
      else (case Split_nl cs of l # ls \<Rightarrow> (c # l) # ls | [] \<Rightarrow> [[c]]))"

text \<open>\<open>fmt\<close>'s \<open>%d\<close> of a non-negative \<open>int\<close>.\<close>

fun fmt_d :: "nat \<Rightarrow> string" where
  "fmt_d n = (if n < 10 then [char_of (48 + n)] else fmt_d (n div 10) @ [char_of (48 + n mod 10)])"

declare fmt_d.simps [simp del]

text \<open>
  A Go \<open>map[K]bool\<close> read at a key: the value stored, \<open>false\<close> for a missing key.
\<close>

definition lookup_bool :: "('k \<rightharpoonup> bool) \<Rightarrow> 'k \<Rightarrow> bool" where
  "lookup_bool m k = (case m k of Some b \<Rightarrow> b | None \<Rightarrow> False)"

text \<open>
  A \<open>for k, v := range m\<close> loop over a Go map visits every entry once, in an order the
  language leaves unspecified and the runtime randomises. The order one execution of the
  loop takes is an argument of the model: \<open>range_map order m\<close> is the sequence of entries
  visited, and \<open>iteration_order order m\<close> says that \<open>order\<close> is an order the runtime may
  take on \<open>m\<close> (each key of \<open>m\<close> once).
\<close>

definition range_map :: "'k list \<Rightarrow> ('k \<rightharpoonup> 'v) \<Rightarrow> ('k \<times> 'v) list" where
  "range_map order m = concat (map (\<lambda>k. case m k of Some v \<Rightarrow> [(k, v)] | None \<Rightarrow> []) order)"

definition iteration_order :: "'k list \<Rightarrow> ('k \<rightharpoonup> 'v) \<Rightarrow> bool" where
  "iteration_order order m = (distinct order \<and> set order = dom m)"

subsection \<open>Artifact ids\<close>

text \<open>\<open>type ArtifactID string\<close> with its eight constants, and \<open>AllArtifacts\<close>.\<close>

type_synonym ArtifactID = string

abbreviation ArtifactSkill :: ArtifactID where "ArtifactSkill \<equiv> ''skill''"
abbreviation ArtifactReference :: ArtifactID where "ArtifactReference \<equiv> ''reference''"
abbreviation ArtifactExamples :: ArtifactID where "ArtifactExamples \<equiv> ''examples''"
abbreviation ArtifactScripts :: ArtifactID where "ArtifactScripts \<equiv> ''scripts''"
abbreviation ArtifactLlms :: ArtifactID where "ArtifactLlms \<equiv> ''llms''"
abbreviation ArtifactLlmsAPI :: ArtifactID where "ArtifactLlmsAPI \<equiv> ''llms-api''"
abbreviation ArtifactLlmsFull :: ArtifactID where "ArtifactLlmsFull \<equiv> ''llms-full''"
abbreviation ArtifactChangelog :: ArtifactID where "ArtifactChangelog \<equiv> ''changelog''"

definition AllArtifacts :: "ArtifactID list" where
  "AllArtifacts =
     [ArtifactSkill, ArtifactReference, ArtifactExamples, ArtifactScripts,
      ArtifactLlms, ArtifactLlmsAPI, ArtifactLlmsFull, ArtifactChangelog]"

subsection \<open>Requests, results, options, instructions\<close>

record GenerateRequest =
  SystemPrompt :: string
  UserMessage :: string
  MaxTokens :: nat
  Model_req :: string

record GenerateResponse =
  Content_resp :: string
  Model_resp :: string
  TokensIn :: nat
  TokensOut :: nat

record ArtifactResult =
  ID :: ArtifactID
  Content :: string
  FilePath :: string
  Response :: "GenerateResponse option"
  Err :: "error option"

record Options =
  OutputDir :: string
  Only :: "string list"
  Force :: bool
  DryRun :: bool
  Diff :: bool
  Verbose :: bool
  PrevArtifacts :: "ArtifactID \<rightharpoonup> string"
  SkipArtifacts :: "ArtifactID \<rightharpoonup> bool"

text \<open>
  Modelled from the spec: package \<open>instructions\<close> is not among the sources. The pipeline
  reads the fields below. The per-artifact toggle is read through its method
  \<open>IsEnabled()\<close> and its field \<open>Filename\<close>; \<open>EnvPrefix()\<close> is a method of the instructions.
  Each method is modelled by the value it returns. The type of the skill metadata is not
  known: it is the type parameter \<open>'meta\<close>.
\<close>

record ArtifactToggle =
  IsEnabled :: bool
  Filename :: string

record 'meta SkillConfig =
  Env :: "string list"
  License :: string
  Compatibility :: string
  AllowedTools :: string
  Metadata_skill :: 'meta

record 'meta Frontmatter =
  Name_fm :: string
  Out :: string
  Artifacts :: "string \<rightharpoonup> ArtifactToggle"
  Skill :: "'meta SkillConfig"

record 'meta Instructions =
  Frontmatter :: "'meta Frontmatter"
  Sections :: "string \<rightharpoonup> string"
  EnvPrefix :: string

text \<open>
  The \<open>Provider\<close> interface is its method \<open>Generate\<close>, a function of the request; the
  field is \<open>None\<close> for the nil provider of a dry run or a diff.
\<close>

record ('ir, 'meta) Pipeline =
  Provider :: "(GenerateRequest \<Rightarrow> error + GenerateResponse) option"
  IR :: 'ir
  Inst :: "'meta Instructions"
  Opts :: Options

text \<open>
  What the functions use and the sources do not hold: the prompt constants of package
  \<open>generate\<close>, \<open>PrependChangelogEntry\<close>, the two digests of package \<open>cache\<close>, the clock,
  and the standard library's \<open>strings.TrimSpace\<close> and \<open>strings.ToLower\<close> (both aware
  of Unicode), JSON encoder, path functions and file system (a failing \<open>os.MkdirAll\<close> or
  \<open>os.WriteFile\<close> is \<open>Some\<close> error, \<open>os.ReadFile\<close> gives \<open>None\<close> for a file it cannot
  read). They are arguments of the model: what is proved holds whatever they compute.
\<close>

record ('ir, 'meta) Extern =
  SkillPrompt :: string
  ReferencePrompt :: string
  ExamplesPrompt :: string
  ScriptsPrompt :: string
  LlmsTxtPrompt :: string
  LlmsAPITxtPrompt :: string
  LlmsFullTxtPrompt :: string
  ChangelogPrompt :: string
  PrependChangelogEntry :: "string \<Rightarrow> string \<Rightarrow> string"
  HashInput :: "string \<Rightarrow> string \<Rightarrow> string \<Rightarrow> string"
  HashOutput :: "string \<Rightarrow> string"
  Now :: string
  strings_TrimSpace :: "string \<Rightarrow> string"
  strings_ToLower :: "string \<Rightarrow> string"
  json_Marshal :: "'ir \<Rightarrow> string"
  json_MarshalIndent :: "'ir \<Rightarrow> string"
  json_Marshal_meta :: "'meta \<Rightarrow> string"
  len_meta :: "'meta \<Rightarrow> nat"
  filepath_Join :: "string list \<Rightarrow> string"
  filepath_Dir :: "string \<Rightarrow> string"
  os_MkdirAll :: "string \<Rightarrow> error option"
  os_WriteFile :: "string \<Rightarrow> string \<Rightarrow> error option"
  os_ReadFile :: "string \<Rightarrow> string option"

subsection \<open>The enabled artifacts\<close>

definition enabledArtifacts :: "('ir, 'meta) Extern \<Rightarrow> ('ir, 'meta) Pipeline \<Rightarrow> ArtifactID list" where
  "enabledArtifacts X p =
     (if length (Only (Opts p)) > 0 then
        (let onlySet = foldl (\<lambda>m o'. m(strings_ToLower X (strings_TrimSpace X o') \<mapsto> True))
                         Map.empty (Only (Opts p))
         in foldl (\<lambda>filtered aid. if lookup_bool onlySet aid then filtered @ [aid] else filtered)
              [] AllArtifacts)
      else
        foldl (\<lambda>filtered aid.
                 (case Artifacts (Frontmatter (Inst p)) aid of
                    Some toggle \<Rightarrow> if \<not> IsEnabled toggle then filtered else filtered @ [aid]
                  | None \<Rightarrow> filtered @ [aid]))
          [] AllArtifacts)"

text \<open>
  The spec's words, to compare with: the allow-list after normalisation (each entry
  through \<open>strings.TrimSpace\<close>, then \<open>strings.ToLower\<close>), and the ids that the
  configuration's toggle disables.
\<close>

definition normalized_allow_list :: "('ir, 'meta) Extern \<Rightarrow> string list \<Rightarrow> string set" where
  "normalized_allow_list X only = set (map (\<lambda>o'. strings_ToLower X (strings_TrimSpace X o')) only)"

definition disabled_by_toggle :: "('ir, 'meta) Pipeline \<Rightarrow> ArtifactID \<Rightarrow> bool" where
  "disabled_by_toggle p aid =
     (case Artifacts (Frontmatter (Inst p)) aid of Some toggle \<Rightarrow> \<not> IsEnabled toggle | None \<Rightarrow> False)"

subsection \<open>System prompts and relevant sections\<close>

definition systemPrompt :: "('ir, 'meta) Extern \<Rightarrow> ('ir, 'meta) Pipeline \<Rightarrow> ArtifactID \<Rightarrow> string" where
  "systemPrompt X p aid =
     (if aid = ArtifactSkill then SkillPrompt X
      else if aid = ArtifactReference then ReferencePrompt X
      else if aid = ArtifactExamples then ExamplesPrompt X
      else if aid = ArtifactScripts then ScriptsPrompt X
      else if aid = ArtifactLlms then LlmsTxtPrompt X
      else if aid = ArtifactLlmsAPI then LlmsAPITxtPrompt X
      else if aid = ArtifactLlmsFull then LlmsFullTxtPrompt X
      else if aid = ArtifactChangelog then ChangelogPrompt X
      else [])"

definition SystemPromptFor :: "('ir, 'meta) Extern \<Rightarrow> ('ir, 'meta) Pipeline \<Rightarrow> ArtifactID \<Rightarrow> string" where
  "SystemPromptFor X p aid = systemPrompt X p aid"

text \<open>
  \<open>RelevantSections\<close>. The first case ranges over the map \<open>p.Inst.Sections\<close>: \<open>order\<close> is
  the order this execution of the loop takes. The other cases read fixed keys.
\<close>

definition RelevantSections :: "string list \<Rightarrow> ('ir, 'meta) Pipeline \<Rightarrow> ArtifactID \<Rightarrow> string" where
  "RelevantSections order p aid =
     (let parts =
        (if aid = ArtifactSkill \<or> aid = ArtifactLlmsFull \<or> aid = ArtifactScripts then
           map (\<lambda>(name, content). name @ nl @ content) (range_map order (Sections (Inst p)))
         else if aid = ArtifactExamples then
           concat (map (\<lambda>key. case Sections (Inst p) key of
                                  Some content \<Rightarrow> [key @ nl @ content]
                                | None \<Rightarrow> [])
                     [''Workflows'', ''Examples'', ''Common patterns''])
         else if aid = ArtifactLlms then
           (case Sections (Inst p) ''Product'' of
              Some content \<Rightarrow> [''Product'' @ nl @ content]
            | None \<Rightarrow> [])
         else [])
      in Join parts (nl @ nl))"

subsection \<open>The user message\<close>

text \<open>
  The note of a first generation. The bytes between \<open>generation\<close> and \<open>no\<close> are the
  ones the source file holds there.
\<close>

definition firstGenerationNote :: string where
  "firstGenerationNote =
     ''## Note'' @ nl @ ''This is the first generation ''
       @ [CHR 0xC3, CHR 0xA2, CHR 0xE2, CHR 0x82, CHR 0xAC, CHR 0xE2, CHR 0x80, CHR 0x9D]
       @ '' no previous artifacts exist.''"

text \<open>
  The changelog case of \<open>userMessage\<close>: the loop over the three sibling ids, then the
  previous changelog, then the note when \<open>hasPrev\<close> is still false. The state is
  \<open>(parts, hasPrev)\<close>.
\<close>

definition changelog_parts :: "('ir, 'meta) Pipeline \<Rightarrow> string list \<Rightarrow> string list" where
  "changelog_parts p parts0 =
     (let st1 =
            foldl (\<lambda>(parts, hasPrev) prevID.
                     (case PrevArtifacts (Opts p) prevID of
                        Some prev \<Rightarrow>
                          if prev \<noteq> [] then (parts @ [''## Previous '' @ prevID @ nl @ prev], True)
                          else (parts, hasPrev)
                      | None \<Rightarrow> (parts, hasPrev)))
              (parts0, False) [ArtifactSkill, ArtifactReference, ArtifactExamples];
          st2 =
            (case PrevArtifacts (Opts p) ArtifactChangelog of
               Some prev \<Rightarrow>
                 if prev \<noteq> [] then (fst st1 @ [''## Previous CHANGELOG.md'' @ nl @ prev], True)
                 else st1
             | None \<Rightarrow> st1)
      in if \<not> snd st2 then fst st2 @ [firstGenerationNote] else fst st2)"

definition section_parts :: "string list \<Rightarrow> ('ir, 'meta) Pipeline \<Rightarrow> string list" where
  "section_parts order p =
     map (\<lambda>(name, content). ''## Instructions: '' @ name @ nl @ content)
       (range_map order (Sections (Inst p)))"

definition userMessage ::
  "('ir, 'meta) Extern \<Rightarrow> string list \<Rightarrow> ('ir, 'meta) Pipeline \<Rightarrow> ArtifactID \<Rightarrow> string" where
  "userMessage X order p aid =
     (let irJSON = json_MarshalIndent X (IR p);
          name = Name_fm (Frontmatter (Inst p));
          envPrefix = EnvPrefix (Inst p);
          skill = Skill (Frontmatter (Inst p));
          parts1 = [''Tool/Project Name: '' @ name, ''Environment Variable Prefix: '' @ envPrefix];
          parts2 = parts1 @
            (if length (Env skill) > 0
             then [''Environment Variables: '' @ Join (Env skill) '', ''] else []);
          parts3 = parts2 @
            (if aid = ArtifactSkill then
               (if License skill \<noteq> [] then [''License: '' @ License skill] else []) @
               (if Compatibility skill \<noteq> [] then [''Compatibility: '' @ Compatibility skill] else []) @
               (if AllowedTools skill \<noteq> [] then [''Allowed Tools: '' @ AllowedTools skill] else []) @
               (if len_meta X (Metadata_skill skill) > 0
                then [''Metadata: '' @ json_Marshal_meta X (Metadata_skill skill)] else [])
             else []);
          parts4 =
            (if aid = ArtifactSkill then parts3 @ section_parts order p
             else if aid = ArtifactExamples then
               parts3 @
               concat (map (\<lambda>key. case Sections (Inst p) key of
                                      Some content \<Rightarrow> [''## Instructions: '' @ key @ nl @ content]
                                    | None \<Rightarrow> [])
                         [''Workflows'', ''Examples'', ''Common patterns''])
             else if aid = ArtifactLlms then
               parts3 @
               (case Sections (Inst p) ''Product'' of
                  Some content \<Rightarrow> [''## Instructions: Product'' @ nl @ content]
                | None \<Rightarrow> [])
             else if aid = ArtifactLlmsFull then parts3 @ section_parts order p
             else if aid = ArtifactScripts then parts3 @ section_parts order p
             else if aid = ArtifactChangelog then changelog_parts p parts3
             else parts3);
          parts5 = parts4 @
            [''## Spec (Intermediate Representation)'' @ nl @ ''```json'' @ nl @ irJSON @ nl @ ''```'']
      in Join parts5 (nl @ nl))"

subsection \<open>Paths and budgets\<close>

definition artifactPath :: "('ir, 'meta) Extern \<Rightarrow> ('ir, 'meta) Pipeline \<Rightarrow> ArtifactID \<Rightarrow> string" where
  "artifactPath X p aid =
     (let name = Name_fm (Frontmatter (Inst p));
          custom = (case Artifacts (Frontmatter (Inst p)) aid of
                      Some toggle \<Rightarrow> if Filename toggle \<noteq> [] then Some (Filename toggle) else None
                    | None \<Rightarrow> None)
      in case custom of
           Some fname \<Rightarrow>
             (if aid = ArtifactSkill then filepath_Join X [name, fname]
              else if aid = ArtifactReference \<or> aid = ArtifactExamples
                then filepath_Join X [name, ''references'', fname]
              else if aid = ArtifactScripts then filepath_Join X [name, ''scripts'', fname]
              else fname)
         | None \<Rightarrow>
             (if aid = ArtifactSkill then filepath_Join X [name, ''SKILL.md'']
              else if aid = ArtifactReference then filepath_Join X [name, ''references'', ''reference.md'']
              else if aid = ArtifactExamples then filepath_Join X [name, ''references'', ''examples.md'']
              else if aid = ArtifactScripts then filepath_Join X [name, ''scripts'']
              else if aid = ArtifactLlms then ''llms.txt''
              else if aid = ArtifactLlmsAPI then ''llms-api.txt''
              else if aid = ArtifactLlmsFull then ''llms-full.txt''
              else if aid = ArtifactChangelog then ''CHANGELOG.md''
              else aid @ ''.txt''))"

definition ArtifactPath :: "('ir, 'meta) Extern \<Rightarrow> ('ir, 'meta) Pipeline \<Rightarrow> ArtifactID \<Rightarrow> string" where
  "ArtifactPath X p aid = artifactPath X p aid"

definition maxTokensForArtifact :: "ArtifactID \<Rightarrow> nat" where
  "maxTokensForArtifact aid =
     (if aid = ArtifactSkill then 8192
      else if aid = ArtifactReference then 16384
      else if aid = ArtifactExamples then 8192
      else if aid = ArtifactScripts then 8192
      else if aid = ArtifactLlms then 1024
      else if aid = ArtifactLlmsAPI then 4096
      else if aid = ArtifactLlmsFull then 16384
      else if aid = ArtifactChangelog then 4096
      else 8192)"

definition estimateTokens :: "string \<Rightarrow> nat" where
  "estimateTokens text = length text div 4"

subsection \<open>Effects\<close>

text \<open>
  Modelled from the spec: package \<open>cache\<close> is not among the sources. The LockFile maps
  an artifact id to its latest entry; \<open>IsUpToDate\<close> is true iff a stored entry exists with
  an exactly matching input hash; \<open>UpdateEntry\<close> overwrites or creates the entry.
\<close>

record FingerprintEntry =
  InputHash :: string
  OutputHash :: string
  Model :: string
  UpdatedAt :: string

type_synonym LockFile = "string \<rightharpoonup> FingerprintEntry"

definition IsUpToDate :: "LockFile \<Rightarrow> string \<Rightarrow> string \<Rightarrow> bool" where
  "IsUpToDate lf artifactID inputHash =
     (case lf artifactID of Some e \<Rightarrow> InputHash e = inputHash | None \<Rightarrow> False)"

definition UpdateEntry ::
  "('ir, 'meta) Extern \<Rightarrow> LockFile \<Rightarrow> string \<Rightarrow> string \<Rightarrow> string \<Rightarrow> string \<Rightarrow> LockFile" where
  "UpdateEntry X lf artifactID inputHash outputHash model =
     lf(artifactID \<mapsto>
          \<lparr>InputHash = inputHash, OutputHash = outputHash, Model = model, UpdatedAt = Now X\<rparr>)"

text \<open>
  What a run does to the world outside, in the order it does it: a call of the provider,
  a directory made, a file written, a cache file written, the LockFile saved. Each effect
  but the last carries the id of the artifact it is done for; the Go calls do not, the
  tag is there to state which artifact an effect belongs to. Only operations that
  succeeded are recorded, except provider calls, recorded whatever they return.
\<close>

datatype effect =
  Generate ArtifactID GenerateRequest
| MkdirAll ArtifactID string
| WriteFile ArtifactID string string
| WriteCached ArtifactID string
| SaveLockFile LockFile

fun is_Generate :: "effect \<Rightarrow> bool" where
  "is_Generate (Generate aid req) = True"
| "is_Generate e = False"

fun effect_artifact :: "effect \<Rightarrow> ArtifactID option" where
  "effect_artifact (Generate aid req) = Some aid"
| "effect_artifact (MkdirAll aid d) = Some aid"
| "effect_artifact (WriteFile aid f data) = Some aid"
| "effect_artifact (WriteCached aid data) = Some aid"
| "effect_artifact (SaveLockFile lf) = None"

subsection \<open>Generating one artifact\<close>

text \<open>
  A nil \<open>Provider\<close> cannot be called: Go panics. The model reports the panic as the error
  of the call. \<open>runGenerate\<close> builds a pipeline with a nil provider only for a dry run, and
  \<open>runDiff\<close> never generates.
\<close>

definition Provider_Generate :: "('ir, 'meta) Pipeline \<Rightarrow> GenerateRequest \<Rightarrow> error + GenerateResponse" where
  "Provider_Generate p req =
     (case Provider p of
        None \<Rightarrow> Inl ''panic: nil pointer dereference''
      | Some g \<Rightarrow> g req)"

text \<open>
  \<open>generateArtifact\<close> returns the result and the provider calls it made. \<open>order\<close> is the
  map-iteration order of its call of \<open>userMessage\<close>.
\<close>

definition generateArtifact ::
  "('ir, 'meta) Extern \<Rightarrow> string list \<Rightarrow> ('ir, 'meta) Pipeline \<Rightarrow> ArtifactID
     \<Rightarrow> ArtifactResult \<times> effect list" where
  "generateArtifact X order p aid =
     (let systemPrompt' = systemPrompt X p aid;
          userMessage' = userMessage X order p aid;
          filePath = artifactPath X p aid
      in if DryRun (Opts p) then
           (let tokens = estimateTokens (systemPrompt' @ userMessage')
            in (\<lparr>ID = aid,
                  Content = ''[dry-run] Would generate '' @ aid @ '' (~'' @ fmt_d tokens
                              @ '' input tokens)'',
                  FilePath = filePath, Response = None, Err = None\<rparr>, []))
         else if lookup_bool (SkipArtifacts (Opts p)) aid then
           (\<lparr>ID = aid, Content = [], FilePath = filePath, Response = None, Err = None\<rparr>, [])
         else
           (let req = \<lparr>SystemPrompt = systemPrompt', UserMessage = userMessage',
                       MaxTokens = maxTokensForArtifact aid, Model_req = []\<rparr>
            in case Provider_Generate p req of
                 Inl err \<Rightarrow>
                   (\<lparr>ID = aid, Content = [], FilePath = filePath, Response = None,
                     Err = Some err\<rparr>, [Generate aid req])
               | Inr resp \<Rightarrow>
                   (\<lparr>ID = aid, Content = Content_resp resp, FilePath = filePath,
                     Response = Some resp, Err = None\<rparr>, [Generate aid req])))"

subsection \<open>The run of the pipeline\<close>

text \<open>
  The choices the Go runtime makes in one execution: \<open>finish_order\<close> ranks the goroutines
  of the parallel artifacts by the moment they append their result; \<open>msg_order\<close>,
  \<open>check_order\<close> and \<open>update_order\<close> give, per artifact, the map-iteration order of the
  call of \<open>userMessage\<close>, of the call of \<open>RelevantSections\<close> in the cache check (or the
  drift query), and of the one in the LockFile update.
\<close>

record Sched =
  finish_order :: "ArtifactID list"
  msg_order :: "ArtifactID \<Rightarrow> string list"
  check_order :: "ArtifactID \<Rightarrow> string list"
  update_order :: "ArtifactID \<Rightarrow> string list"

text \<open>
  The goroutines started for \<open>xs\<close> finish in the order \<open>rank\<close> lists them; the ones it
  does not list finish last, in starting order. Every order of \<open>xs\<close> is reached, by the rank
  that is this order.
\<close>

definition arrange :: "'a list \<Rightarrow> 'a list \<Rightarrow> 'a list" where
  "arrange rank xs = filter (\<lambda>a. a \<in> set xs) (remdups rank) @ filter (\<lambda>a. a \<notin> set rank) xs"

text \<open>The loop that returns at the first result with an error.\<close>

fun check_errors :: "ArtifactResult list \<Rightarrow> error option" where
  "check_errors [] = None"
| "check_errors (r # rs) =
     (case Err r of
        Some e \<Rightarrow> Some (''generating '' @ ID r @ '': '' @ e)
      | None \<Rightarrow> check_errors rs)"

text \<open>The first loop of \<open>Run\<close>: the changelog apart, the others in \<open>parallel\<close>.\<close>

definition split_changelog :: "ArtifactID list \<Rightarrow> ArtifactID list \<times> bool" where
  "split_changelog artifacts =
     foldl (\<lambda>(parallel, hasChangelog) aid.
              if aid = ArtifactChangelog then (parallel, True)
              else (parallel @ [aid], hasChangelog))
       ([], False) artifacts"

text \<open>\<open>Pipeline.Run\<close> returns the results, the error, and the provider calls made.\<close>

definition Run ::
  "('ir, 'meta) Extern \<Rightarrow> Sched \<Rightarrow> ('ir, 'meta) Pipeline
     \<Rightarrow> ArtifactResult list \<times> error option \<times> effect list" where
  "Run X sched p =
     (let artifacts = enabledArtifacts X p;
          (parallel, hasChangelog) = split_changelog artifacts;
          finished = map (\<lambda>aid. generateArtifact X (msg_order sched aid) p aid)
                       (arrange (finish_order sched) parallel);
          results = map fst finished;
          calls = concat (map snd finished)
      in case check_errors results of
           Some e \<Rightarrow> (results, Some e, calls)
         | None \<Rightarrow>
             if hasChangelog then
               (let (result, c) = generateArtifact X (msg_order sched ArtifactChangelog) p ArtifactChangelog
                in case Err result of
                     Some e \<Rightarrow> (results @ [result], Some (''generating changelog: '' @ e), calls @ c)
                   | None \<Rightarrow> (results @ [result], None, calls @ c))
             else (results, None, calls))"

subsection \<open>Writing the results\<close>

text \<open>
  The loop of \<open>writeScripts\<close> over the lines, with its state \<open>currentFile\<close>,
  \<open>currentContent\<close>, \<open>inBlock\<close>. It returns the error and the files written so far.
\<close>

fun scripts_loop ::
  "('ir, 'meta) Extern \<Rightarrow> string \<Rightarrow> string list \<Rightarrow> string \<Rightarrow> string list \<Rightarrow> bool
     \<Rightarrow> error option \<times> effect list" where
  "scripts_loop X dir [] currentFile currentContent inBlock = (None, [])"
| "scripts_loop X dir (line # rest) currentFile currentContent inBlock =
     (if prefix ''```'' line \<and> \<not> inBlock then
        scripts_loop X dir rest (strings_TrimSpace X (drop 3 line)) [] True
      else if line = ''```'' \<and> inBlock then
        (if currentFile \<noteq> [] then
           (let path = filepath_Join X [dir, currentFile];
                data = Join currentContent nl @ nl
            in case os_WriteFile X path data of
                 Some err \<Rightarrow> (Some (''writing script '' @ currentFile @ '': '' @ err), [])
               | None \<Rightarrow>
                   (let (e, effs) = scripts_loop X dir rest [] currentContent False
                    in (e, WriteFile ArtifactScripts path data # effs)))
         else scripts_loop X dir rest [] currentContent False)
      else if inBlock then
        scripts_loop X dir rest currentFile (currentContent @ [line]) inBlock
      else scripts_loop X dir rest currentFile currentContent inBlock)"

definition writeScripts ::
  "('ir, 'meta) Extern \<Rightarrow> string \<Rightarrow> string \<Rightarrow> string \<Rightarrow> error option \<times> effect list" where
  "writeScripts X outputDir scriptsDir content =
     (let dir = filepath_Join X [outputDir, scriptsDir]
      in case os_MkdirAll X dir of
           Some err \<Rightarrow> (Some err, [])
         | None \<Rightarrow>
             (let (e, effs) = scripts_loop X dir (Split_nl content) [] [] False
              in (e, MkdirAll ArtifactScripts dir # effs)))"

fun WriteResults ::
  "('ir, 'meta) Extern \<Rightarrow> string \<Rightarrow> ArtifactResult list \<Rightarrow> error option \<times> effect list" where
  "WriteResults X outputDir [] = (None, [])"
| "WriteResults X outputDir (r # rs) =
     (if Err r \<noteq> None \<or> Content r = [] then WriteResults X outputDir rs
      else if ID r = ArtifactScripts then
        (case writeScripts X outputDir (FilePath r) (Content r) of
           (Some err, effs) \<Rightarrow> (Some (''writing scripts: '' @ err), effs)
         | (None, effs) \<Rightarrow>
             (let (e, effs') = WriteResults X outputDir rs in (e, effs @ effs')))
      else
        (let fullPath = filepath_Join X [outputDir, FilePath r]
         in case os_MkdirAll X (filepath_Dir X fullPath) of
              Some err \<Rightarrow> (Some (''creating directory for '' @ FilePath r @ '': '' @ err), [])
            | None \<Rightarrow>
                (case os_WriteFile X fullPath (Content r) of
                   Some err \<Rightarrow>
                     (Some (''writing '' @ FilePath r @ '': '' @ err),
                      [MkdirAll (ID r) (filepath_Dir X fullPath)])
                 | None \<Rightarrow>
                     (let (e, effs') = WriteResults X outputDir rs
                      in (e, MkdirAll (ID r) (filepath_Dir X fullPath)
                             # WriteFile (ID r) fullPath (Content r) # effs')))))"

section \<open>The commands (unnamed/part_000)\<close>

subsection \<open>The input hash\<close>

text \<open>
  The three lines that \<open>runGenerate\<close> (twice) and \<open>runDiff\<close> repeat: the prompt, the
  relevant sections, and \<open>cache.HashInput\<close> of the serialised IR with them.
\<close>

definition inputHash ::
  "('ir, 'meta) Extern \<Rightarrow> string list \<Rightarrow> ('ir, 'meta) Pipeline \<Rightarrow> string \<Rightarrow> ArtifactID \<Rightarrow> string" where
  "inputHash X order pipeline specContent aid =
     (let prompt = SystemPromptFor X pipeline aid;
          sections = RelevantSections order pipeline aid
      in HashInput X specContent sections prompt)"

subsection \<open>The steps of \<open>runGenerate\<close>\<close>

text \<open>The cache check: the loop over \<open>AllArtifacts\<close>, state \<open>(skipArtifact, allUpToDate)\<close>.\<close>

definition cache_check ::
  "('ir, 'meta) Extern \<Rightarrow> Sched \<Rightarrow> ('ir, 'meta) Pipeline \<Rightarrow> string \<Rightarrow> LockFile
     \<Rightarrow> (ArtifactID \<rightharpoonup> bool) \<times> bool" where
  "cache_check X sched pipeline specContent lockFile =
     foldl (\<lambda>(skipArtifact, allUpToDate) aid.
              if IsUpToDate lockFile aid (inputHash X (check_order sched aid) pipeline specContent aid)
              then (skipArtifact(aid \<mapsto> True), allUpToDate)
              else (skipArtifact, False))
       (Map.empty, True) AllArtifacts"

text \<open>
  The changelog loop after \<open>WriteResults\<close>: the content of a non-empty changelog result
  becomes \<open>PrependChangelogEntry\<close> of it and the previous changelog (the empty string when
  the map has none), and is written again; the errors of both calls are dropped.
\<close>

fun changelog_loop ::
  "('ir, 'meta) Extern \<Rightarrow> string \<Rightarrow> (ArtifactID \<rightharpoonup> string) \<Rightarrow> ArtifactResult list
     \<Rightarrow> ArtifactResult list \<times> effect list" where
  "changelog_loop X outputDir prevArtifacts [] = ([], [])"
| "changelog_loop X outputDir prevArtifacts (r # rs) =
     (let (rs', effs') = changelog_loop X outputDir prevArtifacts rs
      in if ID r = ArtifactChangelog \<and> Content r \<noteq> [] then
           (let existingChangelog = (case prevArtifacts ArtifactChangelog of Some c \<Rightarrow> c | None \<Rightarrow> []);
                content = PrependChangelogEntry X (Content r) existingChangelog;
                changelogPath = filepath_Join X [outputDir, FilePath r];
                effs = (case os_MkdirAll X (filepath_Dir X changelogPath) of
                          None \<Rightarrow>
                            MkdirAll (ID r) (filepath_Dir X changelogPath) #
                            (case os_WriteFile X changelogPath content of
                               None \<Rightarrow> [WriteFile (ID r) changelogPath content]
                             | Some err \<Rightarrow> [])
                        | Some err \<Rightarrow> [])
            in (r\<lparr>Content := content\<rparr> # rs', effs @ effs'))
         else (r # rs', effs'))"

text \<open>The update loop: an entry and a cache file for each result with content and no error.\<close>

fun update_loop ::
  "('ir, 'meta) Extern \<Rightarrow> Sched \<Rightarrow> ('ir, 'meta) Pipeline \<Rightarrow> string \<Rightarrow> ArtifactResult list
     \<Rightarrow> LockFile \<Rightarrow> LockFile \<times> effect list" where
  "update_loop X sched pipeline specContent [] lockFile = (lockFile, [])"
| "update_loop X sched pipeline specContent (r # rs) lockFile =
     (if Err r \<noteq> None \<or> Content r = [] then
        update_loop X sched pipeline specContent rs lockFile
      else
        (let inputHash' = inputHash X (update_order sched (ID r)) pipeline specContent (ID r);
             outputHash = HashOutput X (Content r);
             model = (case Response r of Some resp \<Rightarrow> Model_resp resp | None \<Rightarrow> []);
             lockFile' = UpdateEntry X lockFile (ID r) inputHash' outputHash model;
             (lockFile'', effs) = update_loop X sched pipeline specContent rs lockFile'
         in (lockFile'', WriteCached (ID r) (Content r) # effs)))"

subsection \<open>\<open>runGenerate\<close>\<close>

text \<open>
  The inputs of \<open>runGenerate\<close> from the point where it processes the spec sources: the
  parsed instructions, the output directory, the sources, the flags, the registry of
  \<open>newPluginRegistry\<close>, what \<open>provider.New\<close> returns, what \<open>LoadPreviousArtifacts\<close> and
  \<open>LoadLockFile\<close> return. The steps before (parsing the instructions, resolving the
  sources and the provider configuration) return their error without any effect.
\<close>

record ('op, 'ty, 'au, 'gr, 'meta) GenerateInput =
  in_inst :: "'meta Instructions"
  in_outputDir :: string
  in_sources :: "SpecSource list"
  in_only :: "string list"
  in_force :: bool
  in_dryRun :: bool
  in_diffMode :: bool
  in_verbose :: bool
  in_registry :: "('op, 'ty, 'au, 'gr) Registry"
  in_provider :: "error + (GenerateRequest \<Rightarrow> error + GenerateResponse)"
  in_prevArtifacts :: "ArtifactID \<rightharpoonup> string"
  in_lockFile :: LockFile

text \<open>
  What a command leaves: the error it returns, the effects in order, the LockFile in
  memory at the end, and the results of the pipeline (empty when it was not run). What
  the commands print is not part of the model, but for the report lines of \<open>runDiff\<close>.
\<close>

record Outcome =
  exit_error :: "error option"
  effects :: "effect list"
  lock_out :: LockFile
  results_out :: "ArtifactResult list"

definition build_pipeline ::
  "('op, 'ty, 'au, 'gr, 'meta) GenerateInput \<Rightarrow> ('op, 'ty, 'au, 'gr) IntermediateRepr
     \<Rightarrow> (GenerateRequest \<Rightarrow> error + GenerateResponse) option
     \<Rightarrow> (('op, 'ty, 'au, 'gr) IntermediateRepr, 'meta) Pipeline" where
  "build_pipeline inp parsedIR prov =
     \<lparr>Provider = prov, IR = parsedIR, Inst = in_inst inp,
      Opts = \<lparr>OutputDir = in_outputDir inp, Only = in_only inp, Force = in_force inp,
              DryRun = in_dryRun inp, Diff = in_diffMode inp, Verbose = in_verbose inp,
              PrevArtifacts = in_prevArtifacts inp, SkipArtifacts = Map.empty\<rparr>\<rparr>"

definition with_skip ::
  "('ir, 'meta) Pipeline \<Rightarrow> (ArtifactID \<rightharpoonup> bool) \<Rightarrow> ('ir, 'meta) Pipeline" where
  "with_skip pipeline skipArtifact = pipeline\<lparr>Opts := (Opts pipeline)\<lparr>SkipArtifacts := skipArtifact\<rparr>\<rparr>"

text \<open>From \<open>pipeline.Run\<close> to the end of \<open>runGenerate\<close>.\<close>

definition run_and_write ::
  "(('op, 'ty, 'au, 'gr) IntermediateRepr, 'meta) Extern \<Rightarrow> Sched
     \<Rightarrow> ('op, 'ty, 'au, 'gr, 'meta) GenerateInput
     \<Rightarrow> (('op, 'ty, 'au, 'gr) IntermediateRepr, 'meta) Pipeline \<Rightarrow> string \<Rightarrow> Outcome" where
  "run_and_write X sched inp pipeline specContent =
     (case Run X sched pipeline of
        (results, Some err, calls) \<Rightarrow>
          \<lparr>exit_error = Some err, effects = calls, lock_out = in_lockFile inp, results_out = results\<rparr>
      | (results, None, calls) \<Rightarrow>
          if in_dryRun inp then
            \<lparr>exit_error = None, effects = calls, lock_out = in_lockFile inp, results_out = results\<rparr>
          else if in_diffMode inp then
            \<lparr>exit_error = None, effects = calls, lock_out = in_lockFile inp, results_out = results\<rparr>
          else
            (case WriteResults X (in_outputDir inp) results of
               (Some err, written) \<Rightarrow>
                 \<lparr>exit_error = Some (''writing artifacts: '' @ err), effects = calls @ written,
                  lock_out = in_lockFile inp, results_out = results\<rparr>
             | (None, written) \<Rightarrow>
                 (let (results', appended) =
                        changelog_loop X (in_outputDir inp) (in_prevArtifacts inp) results;
                      (lockFile', cached) =
                        update_loop X sched pipeline specContent results' (in_lockFile inp)
                  in \<lparr>exit_error = None,
                      effects = calls @ written @ appended @ cached @ [SaveLockFile lockFile'],
                      lock_out = lockFile', results_out = results'\<rparr>)))"

definition runGenerate ::
  "(('op, 'ty, 'au, 'gr) IntermediateRepr, 'meta) Extern \<Rightarrow> Sched
     \<Rightarrow> ('op, 'ty, 'au, 'gr, 'meta) GenerateInput \<Rightarrow> Outcome" where
  "runGenerate X sched inp =
     (case ProcessSources (in_registry inp) (in_sources inp) of
        (parsed, warnings, Some err) \<Rightarrow>
          \<lparr>exit_error = Some (''processing specs: '' @ err), effects = [],
           lock_out = in_lockFile inp, results_out = []\<rparr>
      | (None, warnings, None) \<Rightarrow>
          \<lparr>exit_error = Some ''panic: nil pointer dereference'', effects = [],
           lock_out = in_lockFile inp, results_out = []\<rparr>
      | (Some parsedIR, warnings, None) \<Rightarrow>
          (let specContent = json_Marshal X parsedIR
           in case (if \<not> in_dryRun inp then map_sum (\<lambda>e. e) Some (in_provider inp) else Inr None) of
                Inl err \<Rightarrow>
                  \<lparr>exit_error = Some err, effects = [], lock_out = in_lockFile inp, results_out = []\<rparr>
              | Inr prov \<Rightarrow>
                  (let pipeline = build_pipeline inp parsedIR prov
                   in if \<not> in_force inp \<and> \<not> in_dryRun inp then
                        (let (skipArtifact, allUpToDate) =
                               cache_check X sched pipeline specContent (in_lockFile inp)
                         in if allUpToDate then
                              \<lparr>exit_error = None, effects = [], lock_out = in_lockFile inp,
                               results_out = []\<rparr>
                            else run_and_write X sched inp (with_skip pipeline skipArtifact) specContent)
                      else run_and_write X sched inp (with_skip pipeline Map.empty) specContent)))"

subsection \<open>\<open>runDiff\<close>\<close>

text \<open>
  The inputs of \<open>runDiff\<close> from the point where it processes the spec sources: the
  \<open>--against\<close> flag, the LockFile loaded, the parsed instructions, the sources, the
  registry. The file system is read through \<open>os_ReadFile\<close>.
\<close>

record ('op, 'ty, 'au, 'gr, 'meta) DiffInput =
  din_againstDir :: string
  din_lockFile :: LockFile
  din_inst :: "'meta Instructions"
  din_sources :: "SpecSource list"
  din_registry :: "('op, 'ty, 'au, 'gr) Registry"

text \<open>
  What \<open>runDiff\<close> leaves: the error it returns, the ids of its \<open>DRIFTED\<close> lines in order,
  the \<open>REMOVED\<close>, \<open>ADDED\<close> and \<open>CHANGED\<close> lines, the exit status (\<open>os.Exit(1)\<close> on drift),
  the effects, and the LockFile in memory at the end.
\<close>

record DiffOutcome =
  diff_error :: "error option"
  drifted_ids :: "ArtifactID list"
  file_lines :: "string list"
  exit_status :: nat
  diff_effects :: "effect list"
  diff_lock_out :: LockFile

definition drift_loop ::
  "('ir, 'meta) Extern \<Rightarrow> Sched \<Rightarrow> ('ir, 'meta) Pipeline \<Rightarrow> string \<Rightarrow> LockFile
     \<Rightarrow> ArtifactID list \<times> bool" where
  "drift_loop X sched pipeline specContent lockFile =
     foldl (\<lambda>(printed, drifted) aid.
              if \<not> IsUpToDate lockFile aid (inputHash X (check_order sched aid) pipeline specContent aid)
              then (printed @ [aid], True)
              else (printed, drifted))
       ([], False) AllArtifacts"

definition against_loop ::
  "('ir, 'meta) Extern \<Rightarrow> ('ir, 'meta) Pipeline \<Rightarrow> string \<Rightarrow> string \<Rightarrow> string list \<times> bool
     \<Rightarrow> string list \<times> bool" where
  "against_loop X pipeline outputDir againstDir st0 =
     foldl (\<lambda>(printed, drifted) aid.
              (let filePath = ArtifactPath X pipeline aid;
                   currentPath = filepath_Join X [outputDir, filePath];
                   againstPath = filepath_Join X [againstDir, filePath]
               in case (os_ReadFile X currentPath, os_ReadFile X againstPath) of
                    (None, None) \<Rightarrow> (printed, drifted)
                  | (None, Some againstData) \<Rightarrow>
                      (printed @ [''  REMOVED: '' @ filePath @ '' (exists in '' @ againstDir
                                  @ '' but not in '' @ outputDir @ '')''], True)
                  | (Some currentData, None) \<Rightarrow>
                      (printed @ [''  ADDED:   '' @ filePath @ '' (exists in '' @ outputDir
                                  @ '' but not in '' @ againstDir @ '')''], True)
                  | (Some currentData, Some againstData) \<Rightarrow>
                      if currentData \<noteq> againstData
                      then (printed @ [''  CHANGED: '' @ filePath], True)
                      else (printed, drifted)))
       st0 AllArtifacts"

definition runDiff ::
  "(('op, 'ty, 'au, 'gr) IntermediateRepr, 'meta) Extern \<Rightarrow> Sched
     \<Rightarrow> ('op, 'ty, 'au, 'gr, 'meta) DiffInput \<Rightarrow> DiffOutcome" where
  "runDiff X sched inp =
     (case ProcessSources (din_registry inp) (din_sources inp) of
        (parsed, warnings, Some err) \<Rightarrow>
          \<lparr>diff_error = Some err, drifted_ids = [], file_lines = [], exit_status = 1,
           diff_effects = [], diff_lock_out = din_lockFile inp\<rparr>
      | (None, warnings, None) \<Rightarrow>
          \<lparr>diff_error = Some ''panic: nil pointer dereference'', drifted_ids = [], file_lines = [],
           exit_status = 2, diff_effects = [], diff_lock_out = din_lockFile inp\<rparr>
      | (Some parsedIR, warnings, None) \<Rightarrow>
          (let specContent = json_Marshal X parsedIR;
               pipeline = \<lparr>Provider = None, IR = parsedIR, Inst = din_inst inp,
                           Opts = \<lparr>OutputDir = [], Only = [], Force = False, DryRun = False,
                                   Diff = False, Verbose = False, PrevArtifacts = Map.empty,
                                   SkipArtifacts = Map.empty\<rparr>\<rparr>;
               (ids, drifted) = drift_loop X sched pipeline specContent (din_lockFile inp);
               (lines, drifted') =
                  (if din_againstDir inp \<noteq> [] then
                     against_loop X pipeline (Out (Frontmatter (din_inst inp))) (din_againstDir inp)
                       ([], drifted)
                   else ([], drifted))
           in \<lparr>diff_error = None, drifted_ids = ids, file_lines = lines,
               exit_status = (if drifted' then 1 else 0),
               diff_effects = [], diff_lock_out = din_lockFile inp\<rparr>))"

section \<open>Properties of the artifact selection\<close>

lemma foldl_snoc_filter:
  "foldl (\<lambda>acc x. if P x then acc @ [x] else acc) acc xs = acc @ filter P xs"
  by (induction xs arbitrary: acc) simp_all

lemma lookup_bool_onlySet:
  "lookup_bool (foldl (\<lambda>m o'. m(f o' \<mapsto> True)) m0 only) k
     = (lookup_bool m0 k \<or> k \<in> set (map f only))"
  by (induction only arbitrary: m0) (auto simp: lookup_bool_def)

lemma toggle_loop_filter:
  "foldl (\<lambda>filtered aid.
            (case Artifacts (Frontmatter (Inst p)) aid of
               Some toggle \<Rightarrow> if \<not> IsEnabled toggle then filtered else filtered @ [aid]
             | None \<Rightarrow> filtered @ [aid]))
     acc xs = acc @ filter (\<lambda>aid. \<not> disabled_by_toggle p aid) xs"
  by (induction xs arbitrary: acc) (simp_all add: disabled_by_toggle_def split: option.splits)

text \<open>
  C9. With a non-empty allow-list, the enabled artifacts are the fixed sequence filtered
  to the ids that occur in the allow-list after its entries went through
  \<open>strings.TrimSpace\<close> and \<open>strings.ToLower\<close> (the toggles are not consulted); otherwise
  they are the fixed sequence without the ids whose toggle says disabled.
\<close>

theorem enabled_set_resolution:
  "enabledArtifacts X p =
     (if Only (Opts p) \<noteq> [] then
        filter (\<lambda>aid. aid \<in> normalized_allow_list X (Only (Opts p))) AllArtifacts
      else filter (\<lambda>aid. \<not> disabled_by_toggle p aid) AllArtifacts)"
proof (cases "Only (Opts p) = []")
  case True
  then show ?thesis
    by (simp add: enabledArtifacts_def toggle_loop_filter)
next
  case False
  have "lookup_bool (foldl (\<lambda>m o'. m(strings_ToLower X (strings_TrimSpace X o') \<mapsto> True))
                       Map.empty (Only (Opts p)))
          = (\<lambda>aid. aid \<in> normalized_allow_list X (Only (Opts p)))"
    unfolding lookup_bool_onlySet normalized_allow_list_def by (simp add: lookup_bool_def)
  with False show ?thesis
    by (simp add: enabledArtifacts_def foldl_snoc_filter)
qed

definition demo_toggles :: "string \<rightharpoonup> ArtifactToggle" where
  "demo_toggles =
     [''scripts'' \<mapsto> \<lparr>IsEnabled = False, Filename = []\<rparr>,
      ''llms'' \<mapsto> \<lparr>IsEnabled = True, Filename = ''LLMS.txt''\<rparr>]"

definition demo_inst :: "(string \<rightharpoonup> string) \<Rightarrow> unit Instructions" where
  "demo_inst secs =
     \<lparr>Frontmatter =
        \<lparr>Name_fm = ''tool'', Out = ''out'', Artifacts = demo_toggles,
         Skill = \<lparr>Env = [], License = [], Compatibility = [], AllowedTools = [],
                  Metadata_skill = ()\<rparr>\<rparr>,
      Sections = secs, EnvPrefix = ''TOOL''\<rparr>"

definition demo_opts :: "string list \<Rightarrow> Options" where
  "demo_opts only =
     \<lparr>OutputDir = ''out'', Only = only, Force = False, DryRun = False, Diff = False,
      Verbose = False, PrevArtifacts = Map.empty, SkipArtifacts = Map.empty\<rparr>"

section \<open>Properties of the pipeline run\<close>

lemma split_changelog_gen:
  "foldl (\<lambda>(parallel, hasChangelog) aid.
              if aid = ArtifactChangelog then (parallel, True)
              else (parallel @ [aid], hasChangelog))
       (ps, h) xs
   = (ps @ filter (\<lambda>a. a \<noteq> ArtifactChangelog) xs, h \<or> ArtifactChangelog \<in> set xs)"
  by (induction xs arbitrary: ps h) auto

lemma split_changelog_eq:
  "split_changelog xs = (filter (\<lambda>a. a \<noteq> ArtifactChangelog) xs, ArtifactChangelog \<in> set xs)"
  unfolding split_changelog_def split_changelog_gen by simp

lemma set_arrange: "set (arrange rank xs) = set xs"
  by (auto simp: arrange_def)

text \<open>
  \<open>arrange\<close> orders the parallel artifacts without losing or repeating one, and every
  order of them is the order of some rank.
\<close>

lemma distinct_arrange: "distinct xs \<Longrightarrow> distinct (arrange rank xs)"
  by (auto simp: arrange_def)

lemma arrange_any_order: "distinct ys \<Longrightarrow> set ys = set xs \<Longrightarrow> arrange ys xs = ys"
  by (simp add: arrange_def distinct_remdups_id)

lemma generateArtifact_ID: "ID (fst (generateArtifact X ord p aid)) = aid"
  by (simp add: generateArtifact_def Let_def split: sum.splits)

lemma generateArtifact_effects:
  "e \<in> set (snd (generateArtifact X ord p aid)) \<Longrightarrow> is_Generate e \<and> effect_artifact e = Some aid"
  by (auto simp: generateArtifact_def Let_def split: sum.splits if_splits)

lemma generateArtifact_skip:
  "\<not> DryRun (Opts p) \<Longrightarrow> lookup_bool (SkipArtifacts (Opts p)) aid \<Longrightarrow>
   generateArtifact X ord p aid =
     (\<lparr>ID = aid, Content = [], FilePath = artifactPath X p aid, Response = None, Err = None\<rparr>, [])"
  by (simp add: generateArtifact_def Let_def)

lemma check_errors_None: "check_errors rs = None \<longleftrightarrow> (\<forall>r \<in> set rs. Err r = None)"
  by (induction rs) (auto split: option.splits)

text \<open>
  The parallel part of \<open>Run\<close>: what the goroutines return, in the order they finish.
\<close>

definition parallel_finished ::
  "('ir, 'meta) Extern \<Rightarrow> Sched \<Rightarrow> ('ir, 'meta) Pipeline \<Rightarrow> (ArtifactResult \<times> effect list) list" where
  "parallel_finished X sched p = map (\<lambda>aid. generateArtifact X (msg_order sched aid) p aid)
       (arrange (finish_order sched) (filter (\<lambda>a. a \<noteq> ArtifactChangelog) (enabledArtifacts X p)))"

lemma Run_unfold:
  "Run X sched p =
     (let finished = parallel_finished X sched p;
          results = map fst finished;
          calls = concat (map snd finished)
      in case check_errors results of
           Some e \<Rightarrow> (results, Some e, calls)
         | None \<Rightarrow>
             if ArtifactChangelog \<in> set (enabledArtifacts X p) then
               (let (result, c) = generateArtifact X (msg_order sched ArtifactChangelog) p ArtifactChangelog
                in case Err result of
                     Some e \<Rightarrow> (results @ [result], Some (''generating changelog: '' @ e), calls @ c)
                   | None \<Rightarrow> (results @ [result], None, calls @ c))
             else (results, None, calls))"
  by (simp add: Run_def split_changelog_eq parallel_finished_def Let_def)



lemma parallel_finished_ID:
  "f \<in> set (parallel_finished X sched p) \<Longrightarrow>
   \<exists>aid. aid \<in> set (enabledArtifacts X p) \<and> aid \<noteq> ArtifactChangelog
        \<and> f = generateArtifact X (msg_order sched aid) p aid"
  by (auto simp: parallel_finished_def set_arrange)

lemma parallel_finished_complete:
  "aid \<in> set (enabledArtifacts X p) \<Longrightarrow> aid \<noteq> ArtifactChangelog \<Longrightarrow>
   generateArtifact X (msg_order sched aid) p aid \<in> set (parallel_finished X sched p)"
  by (auto simp: parallel_finished_def set_arrange)

lemma Run_cases:
  obtains
    (parallel_error) e where
      "check_errors (map fst (parallel_finished X sched p)) = Some e"
      "Run X sched p = (map fst (parallel_finished X sched p), Some e, concat (map snd (parallel_finished X sched p)))"
  | (no_changelog)
      "check_errors (map fst (parallel_finished X sched p)) = None"
      "ArtifactChangelog \<notin> set (enabledArtifacts X p)"
      "Run X sched p = (map fst (parallel_finished X sched p), None, concat (map snd (parallel_finished X sched p)))"
  | (changelog)
      "check_errors (map fst (parallel_finished X sched p)) = None"
      "ArtifactChangelog \<in> set (enabledArtifacts X p)"
      "Run X sched p =
         (map fst (parallel_finished X sched p)
            @ [fst (generateArtifact X (msg_order sched ArtifactChangelog) p ArtifactChangelog)],
          map_option (\<lambda>e. ''generating changelog: '' @ e)
            (Err (fst (generateArtifact X (msg_order sched ArtifactChangelog) p ArtifactChangelog))),
          concat (map snd (parallel_finished X sched p))
            @ snd (generateArtifact X (msg_order sched ArtifactChangelog) p ArtifactChangelog))"
proof (cases "check_errors (map fst (parallel_finished X sched p))")
  case (Some e)
  then have "Run X sched p = (map fst (parallel_finished X sched p), Some e, concat (map snd (parallel_finished X sched p)))"
    by (simp add: Run_unfold Let_def)
  with Some show ?thesis by (rule parallel_error)
next
  case None
  show ?thesis
  proof (cases "ArtifactChangelog \<in> set (enabledArtifacts X p)")
    case True
    with None have "Run X sched p =
         (map fst (parallel_finished X sched p)
            @ [fst (generateArtifact X (msg_order sched ArtifactChangelog) p ArtifactChangelog)],
          map_option (\<lambda>e. ''generating changelog: '' @ e)
            (Err (fst (generateArtifact X (msg_order sched ArtifactChangelog) p ArtifactChangelog))),
          concat (map snd (parallel_finished X sched p))
            @ snd (generateArtifact X (msg_order sched ArtifactChangelog) p ArtifactChangelog))"
      by (simp add: Run_unfold Let_def split: prod.splits option.splits)
    with None True show ?thesis by (rule changelog)
  next
    case False
    with None have "Run X sched p = (map fst (parallel_finished X sched p), None, concat (map snd (parallel_finished X sched p)))"
      by (simp add: Run_unfold Let_def)
    with None False show ?thesis by (rule no_changelog)
  qed
qed

lemma parallel_results_facts:
  assumes "r \<in> set (map fst (parallel_finished X sched p))"
  shows "ID r \<in> set (enabledArtifacts X p)" and "ID r \<noteq> ArtifactChangelog"
    and "r = fst (generateArtifact X (msg_order sched (ID r)) p (ID r))"
  using assms by (auto dest!: parallel_finished_ID simp: generateArtifact_ID)

lemma parallel_calls_facts:
  assumes "e \<in> set (concat (map snd (parallel_finished X sched p)))"
  shows "is_Generate e" and "effect_artifact e \<noteq> Some ArtifactChangelog"
    and "\<exists>aid \<in> set (enabledArtifacts X p). effect_artifact e = Some aid
           \<and> e \<in> set (snd (generateArtifact X (msg_order sched aid) p aid))"
proof -
  from assms obtain f where f: "f \<in> set (parallel_finished X sched p)" and e: "e \<in> set (snd f)"
    by auto
  from parallel_finished_ID [OF f] obtain aid where
    aid: "aid \<in> set (enabledArtifacts X p)" "aid \<noteq> ArtifactChangelog"
      "f = generateArtifact X (msg_order sched aid) p aid"
    by blast
  from e aid(3) have m: "e \<in> set (snd (generateArtifact X (msg_order sched aid) p aid))" by simp
  from generateArtifact_effects [OF m] show "is_Generate e" by simp
  from generateArtifact_effects [OF m] aid(2) show "effect_artifact e \<noteq> Some ArtifactChangelog" by simp
  from generateArtifact_effects [OF m] aid(1) m
  show "\<exists>aid \<in> set (enabledArtifacts X p). effect_artifact e = Some aid
           \<and> e \<in> set (snd (generateArtifact X (msg_order sched aid) p aid))"
    by blast
qed

lemma Run_results:
  assumes "r \<in> set (fst (Run X sched p))"
  shows "ID r \<in> set (enabledArtifacts X p) \<and> r = fst (generateArtifact X (msg_order sched (ID r)) p (ID r))"
proof (cases rule: Run_cases [of X sched p])
  case (parallel_error e)
  with assms parallel_results_facts [of r X sched p] show ?thesis by simp
next
  case no_changelog
  with assms parallel_results_facts [of r X sched p] show ?thesis by simp
next
  case changelog
  with assms parallel_results_facts [of r X sched p] show ?thesis
    by (auto simp: generateArtifact_ID)
qed

lemma Run_calls:
  assumes "e \<in> set (snd (snd (Run X sched p)))"
  shows "is_Generate e \<and> (\<exists>aid \<in> set (enabledArtifacts X p). effect_artifact e = Some aid
            \<and> e \<in> set (snd (generateArtifact X (msg_order sched aid) p aid)))"
proof (cases rule: Run_cases [of X sched p])
  case (parallel_error err)
  with assms parallel_calls_facts [of e X sched p] show ?thesis by simp
next
  case no_changelog
  with assms parallel_calls_facts [of e X sched p] show ?thesis by simp
next
  case changelog
  from changelog(3) assms
  consider "e \<in> set (concat (map snd (parallel_finished X sched p)))"
    | "e \<in> set (snd (generateArtifact X (msg_order sched ArtifactChangelog) p ArtifactChangelog))"
    by auto
  then show ?thesis
  proof cases
    case 1
    with parallel_calls_facts [of e X sched p] show ?thesis by simp
  next
    case 2
    with generateArtifact_effects [OF 2] changelog(2) show ?thesis by blast
  qed
qed

lemma Run_ok_results:
  assumes "fst (snd (Run X sched p)) = None"
  shows "(\<forall>r \<in> set (fst (Run X sched p)). Err r = None)
       \<and> (\<forall>aid \<in> set (enabledArtifacts X p).
            fst (generateArtifact X (msg_order sched aid) p aid) \<in> set (fst (Run X sched p)))"
proof (cases rule: Run_cases [of X sched p])
  case (parallel_error e)
  with assms show ?thesis by simp
next
  case no_changelog
  have "fst (generateArtifact X (msg_order sched aid) p aid) \<in> set (map fst (parallel_finished X sched p))"
    if "aid \<in> set (enabledArtifacts X p)" for aid
    using parallel_finished_complete [of aid X p sched] that no_changelog(2) by force
  with no_changelog show ?thesis by (simp add: check_errors_None)
next
  case changelog
  have "fst (generateArtifact X (msg_order sched aid) p aid) \<in> set (map fst (parallel_finished X sched p))"
    if "aid \<in> set (enabledArtifacts X p)" "aid \<noteq> ArtifactChangelog" for aid
    using parallel_finished_complete [of aid X p sched] that by force
  with changelog assms show ?thesis by (auto simp: check_errors_None)
qed

lemma Run_parallel_error:
  assumes "r \<in> set (fst (Run X sched p))" and "ID r \<noteq> ArtifactChangelog" and "Err r \<noteq> None"
  shows "fst (snd (Run X sched p)) \<noteq> None
       \<and> (\<forall>r' \<in> set (fst (Run X sched p)). ID r' \<noteq> ArtifactChangelog)
       \<and> (\<forall>e \<in> set (snd (snd (Run X sched p))). is_Generate e \<and> effect_artifact e \<noteq> Some ArtifactChangelog)"
proof (cases rule: Run_cases [of X sched p])
  case (parallel_error e)
  then show ?thesis
    using parallel_results_facts(2) [of _ X sched p] parallel_calls_facts(1,2) [of _ X sched p]
    by auto
next
  case no_changelog
  with assms show ?thesis by (auto simp: check_errors_None)
next
  case changelog
  with assms show ?thesis by (auto simp: check_errors_None generateArtifact_ID)
qed

lemma Run_changelog_gated:
  assumes "r \<in> set (fst (Run X sched p))" and "ID r = ArtifactChangelog"
  shows "\<forall>r' \<in> set (fst (Run X sched p)). ID r' \<noteq> ArtifactChangelog \<longrightarrow> Err r' = None"
proof (cases rule: Run_cases [of X sched p])
  case (parallel_error e)
  with assms parallel_results_facts(2) [of r X sched p] show ?thesis by auto
next
  case no_changelog
  then show ?thesis by (auto simp: check_errors_None)
next
  case changelog
  then show ?thesis by (auto simp: check_errors_None generateArtifact_ID)
qed

section \<open>Properties of the writing steps\<close>

lemma scripts_loop_effects:
  "e \<in> set (snd (scripts_loop X dir ls cf cc ib)) \<Longrightarrow>
   \<not> is_Generate e \<and> effect_artifact e = Some ArtifactScripts"
  by (induction X dir ls cf cc ib rule: scripts_loop.induct)
     (auto simp: case_prod_beta Let_def split: if_splits option.splits)

lemma writeScripts_effects:
  "e \<in> set (snd (writeScripts X outputDir scriptsDir content)) \<Longrightarrow>
   \<not> is_Generate e \<and> effect_artifact e = Some ArtifactScripts"
  by (auto simp: writeScripts_def Let_def case_prod_beta split: option.splits
      dest: scripts_loop_effects)

lemma WriteResults_effects:
  "e \<in> set (snd (WriteResults X outputDir rs)) \<Longrightarrow>
   \<not> is_Generate e \<and> (\<exists>r \<in> set rs. Err r = None \<and> Content r \<noteq> [] \<and> effect_artifact e = Some (ID r))"
proof (induction rs)
  case Nil
  then show ?case by simp
next
  case (Cons r rs)
  show ?case
  proof (cases "Err r \<noteq> None \<or> Content r = []")
    case True
    with Cons show ?thesis by auto
  next
    case False
    show ?thesis
    proof (cases "ID r = ArtifactScripts")
      case True
      with False Cons.prems
      consider "e \<in> set (snd (writeScripts X outputDir (FilePath r) (Content r)))"
        | "e \<in> set (snd (WriteResults X outputDir rs))"
        by (auto simp: case_prod_beta split: option.splits)
      then show ?thesis
      proof cases
        case 1
        from writeScripts_effects [OF 1] True False show ?thesis by auto
      next
        case 2
        with Cons.IH show ?thesis by auto
      qed
    next
      case nscripts: False
      with False Cons.prems
      consider "effect_artifact e = Some (ID r)" "\<not> is_Generate e"
        | "e \<in> set (snd (WriteResults X outputDir rs))"
        by (auto simp: Let_def case_prod_beta split: option.splits)
      then show ?thesis
      proof cases
        case 1
        with False show ?thesis by auto
      next
        case 2
        with Cons.IH show ?thesis by auto
      qed
    qed
  qed
qed

lemma WriteResults_all_empty:
  "\<forall>r \<in> set rs. Content r = [] \<Longrightarrow> WriteResults X outputDir rs = (None, [])"
  by (induction rs) simp_all

lemma changelog_loop_all_empty:
  "\<forall>r \<in> set rs. Content r = [] \<Longrightarrow> changelog_loop X outputDir prev rs = (rs, [])"
  by (induction rs) simp_all

lemma changelog_loop_effects:
  "e \<in> set (snd (changelog_loop X outputDir prev rs)) \<Longrightarrow>
   \<not> is_Generate e \<and> (\<exists>r \<in> set rs. Content r \<noteq> [] \<and> effect_artifact e = Some (ID r))"
  by (induction rs) (auto simp: Let_def case_prod_beta split: option.splits if_splits)

lemma changelog_loop_results:
  "r' \<in> set (fst (changelog_loop X outputDir prev rs)) \<Longrightarrow>
   \<exists>r \<in> set rs. ID r' = ID r \<and> Err r' = Err r \<and> (Content r = [] \<longrightarrow> r' = r)"
  by (induction rs) (auto simp: Let_def case_prod_beta split: if_splits)

lemma update_loop_all_empty:
  "\<forall>r \<in> set rs. Content r = [] \<Longrightarrow> update_loop X sched p sc rs lock = (lock, [])"
  by (induction rs) simp_all

lemma update_loop_effects:
  "e \<in> set (snd (update_loop X sched p sc rs lock)) \<Longrightarrow>
   \<not> is_Generate e \<and> (\<exists>r \<in> set rs. Err r = None \<and> Content r \<noteq> [] \<and> effect_artifact e = Some (ID r))"
  by (induction rs arbitrary: lock) (auto simp: Let_def case_prod_beta split: if_splits)

lemma update_loop_frame:
  "\<forall>r \<in> set rs. ID r = aid \<longrightarrow> Err r \<noteq> None \<or> Content r = [] \<Longrightarrow>
   fst (update_loop X sched p sc rs lock) aid = lock aid"
  by (induction rs arbitrary: lock) (auto simp: Let_def UpdateEntry_def case_prod_beta split: if_splits)


section \<open>Properties of runGenerate\<close>

lemma run_and_write_cases:
  obtains
    (run_failed) err where
      "fst (snd (Run X sched p)) = Some err"
      "run_and_write X sched inp p sc =
         \<lparr>exit_error = Some err, effects = snd (snd (Run X sched p)),
          lock_out = in_lockFile inp, results_out = fst (Run X sched p)\<rparr>"
  | (no_write)
      "fst (snd (Run X sched p)) = None" "in_dryRun inp \<or> in_diffMode inp"
      "run_and_write X sched inp p sc =
         \<lparr>exit_error = None, effects = snd (snd (Run X sched p)),
          lock_out = in_lockFile inp, results_out = fst (Run X sched p)\<rparr>"
  | (write_failed) err where
      "fst (snd (Run X sched p)) = None" "\<not> in_dryRun inp" "\<not> in_diffMode inp"
      "fst (WriteResults X (in_outputDir inp) (fst (Run X sched p))) = Some err"
      "run_and_write X sched inp p sc =
         \<lparr>exit_error = Some (''writing artifacts: '' @ err),
          effects = snd (snd (Run X sched p)) @ snd (WriteResults X (in_outputDir inp) (fst (Run X sched p))),
          lock_out = in_lockFile inp, results_out = fst (Run X sched p)\<rparr>"
  | (written)
      "fst (snd (Run X sched p)) = None" "\<not> in_dryRun inp" "\<not> in_diffMode inp"
      "fst (WriteResults X (in_outputDir inp) (fst (Run X sched p))) = None"
      "run_and_write X sched inp p sc =
         (let results' = fst (changelog_loop X (in_outputDir inp) (in_prevArtifacts inp) (fst (Run X sched p)));
              lockFile' = fst (update_loop X sched p sc results' (in_lockFile inp))
          in \<lparr>exit_error = None,
              effects = snd (snd (Run X sched p))
                @ snd (WriteResults X (in_outputDir inp) (fst (Run X sched p)))
                @ snd (changelog_loop X (in_outputDir inp) (in_prevArtifacts inp) (fst (Run X sched p)))
                @ snd (update_loop X sched p sc results' (in_lockFile inp))
                @ [SaveLockFile lockFile'],
              lock_out = lockFile', results_out = results'\<rparr>)"
proof -
  obtain results err calls where R: "Run X sched p = (results, err, calls)"
    by (cases "Run X sched p") auto
  show ?thesis
  proof (cases err)
    case (Some e)
    with R show ?thesis by (intro run_failed [of e]) (simp_all add: run_and_write_def)
  next
    case None
    show ?thesis
    proof (cases "in_dryRun inp \<or> in_diffMode inp")
      case True
      with R None show ?thesis by (intro no_write) (auto simp: run_and_write_def)
    next
      case False
      obtain werr written where W: "WriteResults X (in_outputDir inp) results = (werr, written)"
        by (cases "WriteResults X (in_outputDir inp) results") auto
      show ?thesis
      proof (cases werr)
        case (Some e)
        with R None False W show ?thesis
          by (intro write_failed [of e]) (simp_all add: run_and_write_def)
      next
        case wn: None
        with R None False W show ?thesis
          by (intro written) (simp_all add: run_and_write_def Let_def case_prod_beta)
      qed
    qed
  qed
qed

lemma runGenerate_cases:
  obtains
    (stopped)
      "effects (runGenerate X sched inp) = []" "results_out (runGenerate X sched inp) = []"
      "lock_out (runGenerate X sched inp) = in_lockFile inp"
  | (ran) parsedIR ws prov skipArtifact where
      "ProcessSources (in_registry inp) (in_sources inp) = (Some parsedIR, ws, None)"
      "runGenerate X sched inp =
         run_and_write X sched inp (with_skip (build_pipeline inp parsedIR prov) skipArtifact)
           (json_Marshal X parsedIR)"
proof -
  obtain parsed ws perr where P: "ProcessSources (in_registry inp) (in_sources inp) = (parsed, ws, perr)"
    by (cases "ProcessSources (in_registry inp) (in_sources inp)") auto
  show ?thesis
  proof (cases "\<exists>parsedIR. parsed = Some parsedIR \<and> perr = None")
    case False
    with P show ?thesis
      by (intro stopped) (auto simp: runGenerate_def split: option.splits)
  next
    case True
    then obtain parsedIR where ir: "parsed = Some parsedIR" "perr = None" by blast
    show ?thesis
    proof (cases "(if \<not> in_dryRun inp then map_sum (\<lambda>e. e) Some (in_provider inp) else Inr None)")
      case (Inl e)
      with P ir show ?thesis
        by (intro stopped) (simp_all add: runGenerate_def)
    next
      case (Inr prov)
      show ?thesis
      proof (cases "\<not> in_force inp \<and> \<not> in_dryRun inp
          \<and> snd (cache_check X sched (build_pipeline inp parsedIR prov) (json_Marshal X parsedIR) (in_lockFile inp))")
        case True
        with P ir Inr show ?thesis
          by (intro stopped) (simp_all add: runGenerate_def Let_def case_prod_beta)
      next
        case False
        with P ir Inr show ?thesis
          by (intro ran [of parsedIR ws prov
                "if \<not> in_force inp \<and> \<not> in_dryRun inp
                 then fst (cache_check X sched (build_pipeline inp parsedIR prov) (json_Marshal X parsedIR) (in_lockFile inp))
                 else Map.empty"])
             (auto simp: runGenerate_def Let_def case_prod_beta)
      qed
    qed
  qed
qed

lemma run_and_write_parallel_error:
  assumes "r \<in> set (results_out (run_and_write X sched inp p sc))"
    and "ID r \<noteq> ArtifactChangelog" and "Err r \<noteq> None"
  shows "exit_error (run_and_write X sched inp p sc) \<noteq> None
       \<and> (\<forall>e \<in> set (effects (run_and_write X sched inp p sc)).
             is_Generate e \<and> effect_artifact e \<noteq> Some ArtifactChangelog)
       \<and> lock_out (run_and_write X sched inp p sc) = in_lockFile inp
       \<and> (\<forall>r' \<in> set (results_out (run_and_write X sched inp p sc)). ID r' \<noteq> ArtifactChangelog)"
proof (cases rule: run_and_write_cases [of X sched p inp sc])
  case (run_failed err)
  with assms Run_parallel_error [of r X sched p] show ?thesis by simp
next
  case no_write
  with assms Run_ok_results [of X sched p] show ?thesis by auto
next
  case (write_failed err)
  with assms Run_ok_results [of X sched p] show ?thesis by auto
next
  case written
  from written(5) assms(1)
  have "r \<in> set (fst (changelog_loop X (in_outputDir inp) (in_prevArtifacts inp) (fst (Run X sched p))))"
    by (simp add: Let_def)
  from changelog_loop_results [OF this] obtain r0 where
    "r0 \<in> set (fst (Run X sched p))" "Err r = Err r0" by blast
  with written(1) assms(3) Run_ok_results [of X sched p] show ?thesis by auto
qed

text \<open>
  C2. If the result of a parallel (non-changelog) artifact carries an error, \<open>runGenerate\<close>
  returns an error; the only effects of the run are the provider calls of the parallel
  artifacts (no directory made, no file written, no cache file, no LockFile saved, no call
  for the changelog); the LockFile in memory is the one loaded; and there is no changelog
  result. Siblings that succeeded are among the results all the same.
\<close>

theorem parallel_failure_aborts_run:
  assumes "r \<in> set (results_out (runGenerate X sched inp))"
    and "ID r \<noteq> ArtifactChangelog" and "Err r \<noteq> None"
  shows "exit_error (runGenerate X sched inp) \<noteq> None
       \<and> (\<forall>e \<in> set (effects (runGenerate X sched inp)).
             is_Generate e \<and> effect_artifact e \<noteq> Some ArtifactChangelog)
       \<and> lock_out (runGenerate X sched inp) = in_lockFile inp
       \<and> (\<forall>r' \<in> set (results_out (runGenerate X sched inp)). ID r' \<noteq> ArtifactChangelog)"
proof (cases rule: runGenerate_cases [of X sched inp])
  case stopped
  with assms show ?thesis by simp
next
  case (ran parsedIR ws prov skipArtifact)
  with assms run_and_write_parallel_error
    [of r X sched inp "with_skip (build_pipeline inp parsedIR prov) skipArtifact" "json_Marshal X parsedIR"]
  show ?thesis by simp
qed


section \<open>A world to run the commands in\<close>

text \<open>
  Prompts \<open>P:id\<close>; a provider that answers \<open>FRESH<prompt>\<close> and fails on the examples
  prompt; digests that show their input; a file system where every write succeeds and
  no file can be read; the source \<open>cli a\<close> of the registry above; no sections, so that
  every map iteration is empty.
\<close>

text \<open>
  Every string of this world is ASCII. On ASCII strings \<open>strings.TrimSpace\<close> removes
  the leading and trailing tabs, line feeds, vertical tabs, form feeds, carriage returns
  and spaces, and \<open>strings.ToLower\<close> maps \<open>A\<close>..\<open>Z\<close> to \<open>a\<close>..\<open>z\<close>; the two functions
  below do that, and stand for the library functions in this world only (on other
  strings the library also knows the Unicode spaces and letters).
\<close>

definition ascii_space :: "char \<Rightarrow> bool" where
  "ascii_space c = (c \<in> {CHR 0x09, CHR 0x0A, CHR 0x0B, CHR 0x0C, CHR 0x0D, CHR 0x20})"

definition ascii_TrimSpace :: "string \<Rightarrow> string" where
  "ascii_TrimSpace s = rev (dropWhile ascii_space (rev (dropWhile ascii_space s)))"

definition ascii_lower :: "char \<Rightarrow> char" where
  "ascii_lower c =
     (let n = (of_char c :: nat) in if 65 \<le> n \<and> n \<le> 90 then char_of (n + 32) else c)"

definition ascii_ToLower :: "string \<Rightarrow> string" where
  "ascii_ToLower s = map ascii_lower s"

definition demo_X :: "((string, string, string, string) IntermediateRepr, unit) Extern" where
  "demo_X =
     \<lparr>SkillPrompt = ''P:skill'', ReferencePrompt = ''P:reference'', ExamplesPrompt = ''P:examples'',
      ScriptsPrompt = ''P:scripts'', LlmsTxtPrompt = ''P:llms'', LlmsAPITxtPrompt = ''P:llms-api'',
      LlmsFullTxtPrompt = ''P:llms-full'', ChangelogPrompt = ''P:changelog'',
      PrependChangelogEntry = (\<lambda>entry existing. entry @ nl @ existing),
      HashInput = (\<lambda>spec sections prompt. spec @ ''|'' @ sections @ ''|'' @ prompt),
      HashOutput = (\<lambda>c. ''sha('' @ c @ '')''),
      Now = ''now'',
      strings_TrimSpace = ascii_TrimSpace,
      strings_ToLower = ascii_ToLower,
      json_Marshal = (\<lambda>i. Join (Operations i) '',''),
      json_MarshalIndent = (\<lambda>i. Join (Operations i) '', ''),
      json_Marshal_meta = (\<lambda>u. ''{}''),
      len_meta = (\<lambda>u. 0),
      filepath_Join = (\<lambda>xs. Join xs ''/''),
      filepath_Dir = (\<lambda>f. f @ ''/..''),
      os_MkdirAll = (\<lambda>d. None),
      os_WriteFile = (\<lambda>f d. None),
      os_ReadFile = (\<lambda>f. None)\<rparr>"

definition demo_provider :: "GenerateRequest \<Rightarrow> error + GenerateResponse" where
  "demo_provider req =
     (if SystemPrompt req = ''P:examples'' then Inl ''HTTP 500''
      else Inr \<lparr>Content_resp = ''FRESH<'' @ SystemPrompt req @ ''>'', Model_resp = ''m1'',
                TokensIn = 10, TokensOut = 20\<rparr>)"

definition demo_sched :: Sched where
  "demo_sched =
     \<lparr>finish_order = [''reference'', ''skill''], msg_order = (\<lambda>a. []),
      check_order = (\<lambda>a. []), update_order = (\<lambda>a. [])\<rparr>"

definition demo_lock :: "ArtifactID list \<Rightarrow> LockFile" where
  "demo_lock ids =
     (\<lambda>a. if a \<in> set ids
          then Some \<lparr>InputHash = ''a,a2||P:'' @ a, OutputHash = ''old'', Model = ''m0'',
                     UpdatedAt = ''then''\<rparr>
          else None)"

definition demo_input ::
  "string list \<Rightarrow> bool \<Rightarrow> bool \<Rightarrow> (ArtifactID \<rightharpoonup> string) \<Rightarrow> LockFile
     \<Rightarrow> (string, string, string, string, unit) GenerateInput" where
  "demo_input only force dry prev lock =
     \<lparr>in_inst = demo_inst Map.empty, in_outputDir = ''out'',
      in_sources = [demo_source ''cli'' ''a''], in_only = only, in_force = force,
      in_dryRun = dry, in_diffMode = False, in_verbose = False, in_registry = demo_registry,
      in_provider = Inr demo_provider, in_prevArtifacts = prev, in_lockFile = lock\<rparr>"


lemmas run_defs =
  runGenerate_def run_and_write_def Run_def split_changelog_def arrange_def
  generateArtifact_def Provider_Generate_def userMessage_def changelog_parts_def section_parts_def
  systemPrompt_def SystemPromptFor_def RelevantSections_def range_map_def artifactPath_def
  maxTokensForArtifact_def enabledArtifacts_def lookup_bool_def
  cache_check_def inputHash_def IsUpToDate_def UpdateEntry_def build_pipeline_def with_skip_def
  writeScripts_def AllArtifacts_def Let_def nl_def

lemmas demo_defs =
  demo_X_def demo_provider_def demo_sched_def demo_lock_def demo_input_def demo_inst_def
  demo_toggles_def

lemma demo_ProcessSources:
  "ProcessSources demo_registry [demo_source ''cli'' ''a''] =
     (Some \<lparr>Operations = [''a'', ''a2''], Types = [''aT''], Auth = [], Groups = [''aG''],
             Metadata = Map.empty ++ [''title'' \<mapsto> ''a'']\<rparr>,
      [\<lparr>Message = ''no auth in a'', Path = ''cli''\<rparr>], None)"
  by (simp add: ProcessSources_def process_loop_step demo_outcome_ok Merge_def empty_IR_def
      del: process_loop.simps(2))

lemma demo_normalize_ids:
  "ascii_ToLower (ascii_TrimSpace ''skill'') = ''skill''"
  "ascii_ToLower (ascii_TrimSpace ''examples'') = ''examples''"
  "ascii_ToLower (ascii_TrimSpace ''changelog'') = ''changelog''"
  "ascii_ToLower (ascii_TrimSpace ''reference'') = ''reference''"
  "ascii_ToLower (ascii_TrimSpace ''  Skill '') = ''skill''"
  "ascii_ToLower (ascii_TrimSpace ''SCRIPTS'') = ''scripts''"
  "ascii_ToLower (ascii_TrimSpace ''nope'') = ''nope''"
  by code_simp+

lemma demo_failed_run:
  "map (\<lambda>r. (ID r, Content r, Err r))
     (results_out (runGenerate demo_X demo_sched
        (demo_input [''skill'', ''examples'', ''changelog''] False False Map.empty Map.empty)))
   = [(''skill'', ''FRESH<P:skill>'', None), (''examples'', [], Some ''HTTP 500'')]"
  by (simp add: run_defs demo_defs demo_ProcessSources demo_normalize_ids)

theorem parallel_failure_aborts_run_witness:
  "map (\<lambda>r. (ID r, Content r, Err r))
     (results_out (runGenerate demo_X demo_sched
        (demo_input [''skill'', ''examples'', ''changelog''] False False Map.empty Map.empty)))
     = [(''skill'', ''FRESH<P:skill>'', None), (''examples'', [], Some ''HTTP 500'')]
   \<and> exit_error (runGenerate demo_X demo_sched
        (demo_input [''skill'', ''examples'', ''changelog''] False False Map.empty Map.empty))
     = Some ''generating examples: HTTP 500''
   \<and> map effect_artifact (effects (runGenerate demo_X demo_sched
        (demo_input [''skill'', ''examples'', ''changelog''] False False Map.empty Map.empty)))
     = [Some ''skill'', Some ''examples'']
   \<and> list_all is_Generate (effects (runGenerate demo_X demo_sched
        (demo_input [''skill'', ''examples'', ''changelog''] False False Map.empty Map.empty)))
   \<and> lock_out (runGenerate demo_X demo_sched
        (demo_input [''skill'', ''examples'', ''changelog''] False False Map.empty Map.empty))
     = Map.empty"
proof -
  let ?out = "runGenerate demo_X demo_sched
        (demo_input [''skill'', ''examples'', ''changelog''] False False Map.empty Map.empty)"
  have res: "map (\<lambda>r. (ID r, Content r, Err r)) (results_out ?out)
     = [(''skill'', ''FRESH<P:skill>'', None), (''examples'', [], Some ''HTTP 500'')]"
    by (rule demo_failed_run)
  then obtain r0 r where "results_out ?out = [r0, r]" "ID r = ''examples''" "Err r = Some ''HTTP 500''"
    by (auto simp: map_eq_Cons_conv)
  then have r: "r \<in> set (results_out ?out)" "ID r = ''examples''" "Err r = Some ''HTTP 500''"
    by simp_all
  from r have "ID r \<noteq> ArtifactChangelog" "Err r \<noteq> None" by simp_all
  from parallel_failure_aborts_run [OF r(1) this]
  have gen: "list_all is_Generate (effects ?out)"
    and lock: "lock_out ?out = in_lockFile (demo_input [''skill'', ''examples'', ''changelog''] False False Map.empty Map.empty)"
    by (simp_all add: list_all_iff)
  have err: "exit_error ?out = Some ''generating examples: HTTP 500''"
    by (simp add: run_defs demo_defs demo_ProcessSources demo_normalize_ids)
  have eff: "map effect_artifact (effects ?out) = [Some ''skill'', Some ''examples'']"
    by (simp add: run_defs demo_defs demo_ProcessSources demo_normalize_ids)
  from lock have "lock_out ?out = Map.empty" by (simp add: demo_input_def)
  with res gen err eff show ?thesis by simp
qed

section \<open>The changelog request\<close>

text \<open>\<open>strings.Contains\<close>, to say what a prompt holds.\<close>

fun Contains :: "string \<Rightarrow> string \<Rightarrow> bool" where
  "Contains [] substr = (substr = [])"
| "Contains (c # cs) substr = (prefix substr (c # cs) \<or> Contains cs substr)"

text \<open>
  The spec's words for the changelog's user message, to compare with \<open>userMessage\<close>: the
  header every message starts with; then, for each of skill, reference and examples and
  for the changelog itself, the previous run's stored content when there is one and it is
  not empty; the note when there is none at all; then the serialised IR.
\<close>

definition message_header :: "('ir, 'meta) Pipeline \<Rightarrow> string list" where
  "message_header p =
     [''Tool/Project Name: '' @ Name_fm (Frontmatter (Inst p)),
      ''Environment Variable Prefix: '' @ EnvPrefix (Inst p)]
     @ (if Env (Skill (Frontmatter (Inst p))) \<noteq> []
        then [''Environment Variables: '' @ Join (Env (Skill (Frontmatter (Inst p)))) '', ''] else [])"

definition previous_part :: "('ir, 'meta) Pipeline \<Rightarrow> string \<Rightarrow> ArtifactID \<Rightarrow> string list" where
  "previous_part p title aid =
     (case PrevArtifacts (Opts p) aid of
        Some prev \<Rightarrow> if prev \<noteq> [] then [''## Previous '' @ title @ nl @ prev] else []
      | None \<Rightarrow> [])"

definition previous_parts :: "('ir, 'meta) Pipeline \<Rightarrow> string list" where
  "previous_parts p =
     (let found = previous_part p ''skill'' ArtifactSkill @ previous_part p ''reference'' ArtifactReference
                  @ previous_part p ''examples'' ArtifactExamples
                  @ previous_part p ''CHANGELOG.md'' ArtifactChangelog
      in if found = [] then [firstGenerationNote] else found)"

definition spec_part :: "('ir, 'meta) Extern \<Rightarrow> ('ir, 'meta) Pipeline \<Rightarrow> string" where
  "spec_part X p =
     ''## Spec (Intermediate Representation)'' @ nl @ ''```json'' @ nl
       @ json_MarshalIndent X (IR p) @ nl @ ''```''"

definition changelog_message :: "('ir, 'meta) Extern \<Rightarrow> ('ir, 'meta) Pipeline \<Rightarrow> string" where
  "changelog_message X p = Join (message_header p @ previous_parts p @ [spec_part X p]) (nl @ nl)"

lemma previous_fold:
  "foldl (\<lambda>(parts, hasPrev) prevID.
            (case PrevArtifacts (Opts p) prevID of
               Some prev \<Rightarrow>
                 if prev \<noteq> [] then (parts @ [''## Previous '' @ prevID @ nl @ prev], True)
                 else (parts, hasPrev)
             | None \<Rightarrow> (parts, hasPrev)))
     (parts, h) ks
   = (parts @ concat (map (\<lambda>k. previous_part p k k) ks),
      h \<or> concat (map (\<lambda>k. previous_part p k k) ks) \<noteq> [])"
  by (induction ks arbitrary: parts h) (auto simp: previous_part_def split: option.splits)

lemma changelog_parts_eq: "changelog_parts p parts0 = parts0 @ previous_parts p"
proof -
  have own: "previous_part p ''CHANGELOG.md'' ArtifactChangelog =
      (case PrevArtifacts (Opts p) ArtifactChangelog of
         Some prev \<Rightarrow> if prev \<noteq> [] then [''## Previous CHANGELOG.md'' @ nl @ prev] else []
       | None \<Rightarrow> [])"
    by (simp add: previous_part_def split: option.splits)
  show ?thesis
    unfolding changelog_parts_def previous_fold
    by (auto simp: previous_parts_def Let_def own split: option.splits)
qed

lemma userMessage_changelog:
  "userMessage X ord p ArtifactChangelog = changelog_message X p"
  by (simp add: userMessage_def changelog_message_def changelog_parts_eq message_header_def
      spec_part_def Let_def)

lemma generateArtifact_effect_form:
  "e \<in> set (snd (generateArtifact X ord p aid)) \<Longrightarrow>
   e = Generate aid \<lparr>SystemPrompt = systemPrompt X p aid, UserMessage = userMessage X ord p aid,
                      MaxTokens = maxTokensForArtifact aid, Model_req = []\<rparr>"
  by (auto simp: generateArtifact_def Let_def split: if_splits sum.splits)

lemma Run_changelog_call:
  assumes "e \<in> set (snd (snd (Run X sched p)))" and "effect_artifact e = Some ArtifactChangelog"
  shows "e = Generate ArtifactChangelog
               \<lparr>SystemPrompt = ChangelogPrompt X, UserMessage = changelog_message X p,
                MaxTokens = 4096, Model_req = []\<rparr>
         \<and> (\<forall>r \<in> set (fst (Run X sched p)). ID r \<noteq> ArtifactChangelog \<longrightarrow> Err r = None)"
proof (cases rule: Run_cases [of X sched p])
  case (parallel_error err)
  with assms parallel_calls_facts(2) [of e X sched p] show ?thesis by simp
next
  case no_changelog
  with assms parallel_calls_facts(2) [of e X sched p] show ?thesis by simp
next
  case changelog
  with assms parallel_calls_facts(2) [of e X sched p]
  have "e \<in> set (snd (generateArtifact X (msg_order sched ArtifactChangelog) p ArtifactChangelog))"
    by auto
  from generateArtifact_effect_form [OF this]
  have "e = Generate ArtifactChangelog
               \<lparr>SystemPrompt = ChangelogPrompt X, UserMessage = changelog_message X p,
                MaxTokens = 4096, Model_req = []\<rparr>"
    by (simp add: userMessage_changelog systemPrompt_def maxTokensForArtifact_def)
  moreover from changelog
  have "\<forall>r \<in> set (fst (Run X sched p)). ID r \<noteq> ArtifactChangelog \<longrightarrow> Err r = None"
    by (auto simp: check_errors_None generateArtifact_ID)
  ultimately show ?thesis by simp
qed

text \<open>
  C3, as amended. The provider is called for the changelog only when every parallel
  result is free of error, and a changelog result exists only then. The request of that
  call is the changelog prompt with \<open>changelog_message\<close>: the header, the previous run's
  stored content of skill, reference, examples and of the changelog (the note when none
  is available), and the serialised IR. The message is the same whatever the provider
  is: nothing the provider generated in this run is in it.
\<close>

theorem changelog_request_from_previous_run:
  "(\<forall>e \<in> set (snd (snd (Run X sched p))). effect_artifact e = Some ArtifactChangelog \<longrightarrow>
        e = Generate ArtifactChangelog
              \<lparr>SystemPrompt = ChangelogPrompt X, UserMessage = changelog_message X p,
               MaxTokens = 4096, Model_req = []\<rparr>
        \<and> (\<forall>r \<in> set (fst (Run X sched p)). ID r \<noteq> ArtifactChangelog \<longrightarrow> Err r = None))
   \<and> (\<forall>r \<in> set (fst (Run X sched p)). ID r = ArtifactChangelog \<longrightarrow>
        (\<forall>r' \<in> set (fst (Run X sched p)). ID r' \<noteq> ArtifactChangelog \<longrightarrow> Err r' = None))
   \<and> (\<forall>g. changelog_message X (p\<lparr>Provider := g\<rparr>) = changelog_message X p)"
proof (intro conjI ballI impI allI)
  fix e
  assume "e \<in> set (snd (snd (Run X sched p)))" "effect_artifact e = Some ArtifactChangelog"
  from Run_changelog_call [OF this]
  show "e = Generate ArtifactChangelog
              \<lparr>SystemPrompt = ChangelogPrompt X, UserMessage = changelog_message X p,
               MaxTokens = 4096, Model_req = []\<rparr>"
    and "\<And>r. r \<in> set (fst (Run X sched p)) \<Longrightarrow> ID r \<noteq> ArtifactChangelog \<Longrightarrow> Err r = None"
    by simp_all
next
  fix r r'
  assume "r \<in> set (fst (Run X sched p))" "ID r = ArtifactChangelog"
    and "r' \<in> set (fst (Run X sched p))" "ID r' \<noteq> ArtifactChangelog"
  with Run_changelog_gated [of r X sched p] show "Err r' = None" by simp
next
  fix g
  show "changelog_message X (p\<lparr>Provider := g\<rparr>) = changelog_message X p"
    by (simp add: changelog_message_def message_header_def previous_parts_def previous_part_def
        spec_part_def)
qed


definition demo_IR :: "(string, string, string, string) IntermediateRepr" where
  "demo_IR =
     \<lparr>Operations = [''a'', ''a2''], Types = [''aT''], Auth = [], Groups = [''aG''],
      Metadata = Map.empty ++ [''title'' \<mapsto> ''a'']\<rparr>"

definition demo_run_pipeline ::
  "string list \<Rightarrow> (ArtifactID \<rightharpoonup> string)
     \<Rightarrow> ((string, string, string, string) IntermediateRepr, unit) Pipeline" where
  "demo_run_pipeline only prev =
     \<lparr>Provider = Some demo_provider, IR = demo_IR, Inst = demo_inst Map.empty,
      Opts = (demo_opts only)\<lparr>PrevArtifacts := prev\<rparr>\<rparr>"

definition demo_changelog_message :: string where
  "demo_changelog_message =
     ''Tool/Project Name: tool'' @ nl @ nl @ ''Environment Variable Prefix: TOOL'' @ nl @ nl
       @ ''## Previous skill'' @ nl @ ''OLD-SKILL'' @ nl @ nl
       @ ''## Spec (Intermediate Representation)'' @ nl @ ''```json'' @ nl @ ''a, a2'' @ nl @ ''```''"

theorem enabled_set_resolution_witness:
  "enabledArtifacts demo_X (demo_run_pipeline [''  Skill '', ''SCRIPTS'', ''nope''] Map.empty)
     = [''skill'', ''scripts'']
   \<and> enabledArtifacts demo_X (demo_run_pipeline [] Map.empty)
     = [''skill'', ''reference'', ''examples'', ''llms'', ''llms-api'', ''llms-full'', ''changelog'']"
  using enabled_set_resolution
      [where X = demo_X and p = "demo_run_pipeline [''  Skill '', ''SCRIPTS'', ''nope''] Map.empty"]
    enabled_set_resolution [where X = demo_X and p = "demo_run_pipeline [] Map.empty"]
  by (simp add: demo_run_pipeline_def demo_opts_def demo_inst_def demo_toggles_def
      normalized_allow_list_def disabled_by_toggle_def AllArtifacts_def demo_X_def
      demo_normalize_ids)

lemma demo_changelog_message_eq:
  "changelog_message demo_X (demo_run_pipeline only [''skill'' \<mapsto> ''OLD-SKILL''])
     = demo_changelog_message"
  by (simp add: changelog_message_def message_header_def previous_parts_def previous_part_def
      spec_part_def demo_run_pipeline_def demo_opts_def demo_inst_def demo_X_def demo_IR_def
      demo_changelog_message_def nl_def)

lemma demo_Run_calls:
  "snd (snd (Run demo_X demo_sched (demo_run_pipeline [''skill'', ''changelog''] [''skill'' \<mapsto> ''OLD-SKILL''])))
     = [Generate ''skill''
          \<lparr>SystemPrompt = ''P:skill'',
           UserMessage = userMessage demo_X [] (demo_run_pipeline [''skill'', ''changelog''] [''skill'' \<mapsto> ''OLD-SKILL'']) ''skill'',
           MaxTokens = 8192, Model_req = []\<rparr>,
        Generate ''changelog''
          \<lparr>SystemPrompt = ''P:changelog'',
           UserMessage = userMessage demo_X [] (demo_run_pipeline [''skill'', ''changelog''] [''skill'' \<mapsto> ''OLD-SKILL'']) ''changelog'',
           MaxTokens = 4096, Model_req = []\<rparr>]"
  by (simp add: Run_def split_changelog_def arrange_def generateArtifact_def Provider_Generate_def
      systemPrompt_def maxTokensForArtifact_def enabledArtifacts_def lookup_bool_def
      AllArtifacts_def Let_def demo_run_pipeline_def demo_opts_def demo_X_def demo_provider_def
      demo_sched_def demo_normalize_ids)

theorem changelog_request_from_previous_run_witness:
  "(\<exists>e. e \<in> set (snd (snd (Run demo_X demo_sched
              (demo_run_pipeline [''skill'', ''changelog''] [''skill'' \<mapsto> ''OLD-SKILL'']))))
        \<and> effect_artifact e = Some ArtifactChangelog
        \<and> e = Generate ArtifactChangelog
                \<lparr>SystemPrompt = ''P:changelog'', UserMessage = demo_changelog_message,
                 MaxTokens = 4096, Model_req = []\<rparr>)
   \<and> list_all (\<lambda>r. Err r = None)
        (fst (Run demo_X demo_sched
              (demo_run_pipeline [''skill'', ''changelog''] [''skill'' \<mapsto> ''OLD-SKILL''])))"
proof -
  let ?p = "demo_run_pipeline [''skill'', ''changelog''] [''skill'' \<mapsto> ''OLD-SKILL'']"
  let ?e = "Generate ''changelog''
          \<lparr>SystemPrompt = ''P:changelog'', UserMessage = userMessage demo_X [] ?p ''changelog'',
           MaxTokens = 4096, Model_req = []\<rparr>"
  have m: "?e \<in> set (snd (snd (Run demo_X demo_sched ?p)))"
    unfolding demo_Run_calls by simp
  have t: "effect_artifact ?e = Some ArtifactChangelog" by simp
  from changelog_request_from_previous_run [of demo_X demo_sched ?p] m t
  have e: "?e = Generate ArtifactChangelog
              \<lparr>SystemPrompt = ChangelogPrompt demo_X, UserMessage = changelog_message demo_X ?p,
               MaxTokens = 4096, Model_req = []\<rparr>"
    and ok: "\<forall>r \<in> set (fst (Run demo_X demo_sched ?p)). ID r \<noteq> ArtifactChangelog \<longrightarrow> Err r = None"
    by blast+
  have cl: "\<forall>r \<in> set (fst (Run demo_X demo_sched ?p)). ID r = ArtifactChangelog \<longrightarrow> Err r = None"
    by (simp add: Run_def split_changelog_def arrange_def generateArtifact_def Provider_Generate_def
      systemPrompt_def maxTokensForArtifact_def enabledArtifacts_def lookup_bool_def
      AllArtifacts_def Let_def demo_run_pipeline_def demo_opts_def demo_X_def demo_provider_def
      demo_sched_def demo_normalize_ids)
  from ok cl have all: "list_all (\<lambda>r. Err r = None) (fst (Run demo_X demo_sched ?p))"
    unfolding list_all_iff by blast
  have cp: "ChangelogPrompt demo_X = ''P:changelog''" by (simp add: demo_X_def)
  from e have "?e = Generate ArtifactChangelog
              \<lparr>SystemPrompt = ''P:changelog'', UserMessage = demo_changelog_message,
               MaxTokens = 4096, Model_req = []\<rparr>"
    unfolding cp demo_changelog_message_eq .
  with m t all show ?thesis by metis
qed

text \<open>
  C3 as stated fails: in this run the sibling \<open>skill\<close> is generated with the content
  \<open>FRESH<P:skill>\<close>, and the one request made for the changelog holds the previous
  content \<open>OLD-SKILL\<close> of the skill but not the content just generated.
\<close>

theorem changelog_prompt_lacks_fresh_content:
  "map (\<lambda>r. (ID r, Content r))
     (results_out (runGenerate demo_X demo_sched
        (demo_input [''skill'', ''changelog''] False False [''skill'' \<mapsto> ''OLD-SKILL''] Map.empty)))
     = [(''skill'', ''FRESH<P:skill>''), (''changelog'', ''FRESH<P:changelog>'' @ nl)]
   \<and> filter (\<lambda>e. effect_artifact e = Some ArtifactChangelog \<and> is_Generate e)
       (effects (runGenerate demo_X demo_sched
        (demo_input [''skill'', ''changelog''] False False [''skill'' \<mapsto> ''OLD-SKILL''] Map.empty)))
     = [Generate ArtifactChangelog
          \<lparr>SystemPrompt = ''P:changelog'', UserMessage = demo_changelog_message,
           MaxTokens = 4096, Model_req = []\<rparr>]
   \<and> Contains demo_changelog_message ''OLD-SKILL''
   \<and> \<not> Contains demo_changelog_message ''FRESH<P:skill>''
   \<and> \<not> Contains ''P:changelog'' ''FRESH<P:skill>''"
  by (simp add: run_defs demo_defs demo_ProcessSources demo_normalize_ids
      demo_changelog_message_def)

section \<open>The cache check and the skipped artifacts\<close>

text \<open>
  An artifact is a cache hit in a run when the LockFile holds an entry for it whose input
  hash is the one the run computes for it.
\<close>

definition cache_hit ::
  "('ir, 'meta) Extern \<Rightarrow> Sched \<Rightarrow> ('ir, 'meta) Pipeline \<Rightarrow> string \<Rightarrow> LockFile \<Rightarrow> ArtifactID \<Rightarrow> bool" where
  "cache_hit X sched pipeline specContent lockFile aid =
     IsUpToDate lockFile aid (inputHash X (check_order sched aid) pipeline specContent aid)"

lemma cache_check_gen:
  "foldl (\<lambda>(skipArtifact, allUpToDate) aid.
              if IsUpToDate lockFile aid (inputHash X (check_order sched aid) pipeline specContent aid)
              then (skipArtifact(aid \<mapsto> True), allUpToDate)
              else (skipArtifact, False))
       (skip, all) xs
   = (\<lambda>a. if a \<in> set xs \<and> cache_hit X sched pipeline specContent lockFile a then Some True else skip a,
      all \<and> (\<forall>a \<in> set xs. cache_hit X sched pipeline specContent lockFile a))"
proof (induction xs arbitrary: skip all)
  case Nil
  show ?case by simp
next
  case (Cons x xs)
  show ?case
    by (simp add: Cons.IH) (auto simp: cache_hit_def fun_eq_iff)
qed

lemma cache_check_skip:
  "lookup_bool (fst (cache_check X sched pipeline specContent lockFile)) aid
     = (aid \<in> set AllArtifacts \<and> cache_hit X sched pipeline specContent lockFile aid)"
  unfolding cache_check_def cache_check_gen by (simp add: lookup_bool_def)

lemma cache_check_all:
  "snd (cache_check X sched pipeline specContent lockFile)
     = (\<forall>aid \<in> set AllArtifacts. cache_hit X sched pipeline specContent lockFile aid)"
  unfolding cache_check_def cache_check_gen by simp

lemma enabledArtifacts_with_skip [simp]:
  "enabledArtifacts X (with_skip p skipArtifact) = enabledArtifacts X p"
  by (simp add: enabledArtifacts_def with_skip_def)

lemma enabled_in_AllArtifacts: "aid \<in> set (enabledArtifacts X p) \<Longrightarrow> aid \<in> set AllArtifacts"
  by (auto simp: enabledArtifacts_def foldl_snoc_filter toggle_loop_filter Let_def split: if_splits)

lemma with_skip_Opts [simp]:
  "DryRun (Opts (with_skip p skipArtifact)) = DryRun (Opts p)"
  "SkipArtifacts (Opts (with_skip p skipArtifact)) = skipArtifact"
  by (simp_all add: with_skip_def)

lemma changelog_loop_map:
  "fst (changelog_loop X outputDir prev rs)
     = map (\<lambda>r. if ID r = ArtifactChangelog \<and> Content r \<noteq> []
                 then r\<lparr>Content := PrependChangelogEntry X (Content r)
                                      (case prev ArtifactChangelog of Some c \<Rightarrow> c | None \<Rightarrow> [])\<rparr>
                 else r) rs"
  by (induction rs) (simp_all add: Let_def case_prod_beta)

lemma Run_skipped_result:
  assumes "\<not> DryRun (Opts p)" and "lookup_bool (SkipArtifacts (Opts p)) aid"
    and "r \<in> set (fst (Run X sched p))" and "ID r = aid"
  shows "r = \<lparr>ID = aid, Content = [], FilePath = artifactPath X p aid, Response = None, Err = None\<rparr>"
  using Run_results [OF assms(3)] assms(1,2,4) generateArtifact_skip [of p aid X "msg_order sched aid"]
  by simp

lemma Run_skipped_no_call:
  assumes "\<not> DryRun (Opts p)" and "lookup_bool (SkipArtifacts (Opts p)) aid"
    and "e \<in> set (snd (snd (Run X sched p)))"
  shows "effect_artifact e \<noteq> Some aid"
proof
  assume tag: "effect_artifact e = Some aid"
  from Run_calls [OF assms(3)] tag
  have "e \<in> set (snd (generateArtifact X (msg_order sched aid) p aid))" by auto
  with generateArtifact_skip [OF assms(1,2), of X "msg_order sched aid"] show False by simp
qed

lemma run_and_write_skipped:
  assumes nd: "\<not> DryRun (Opts p)" and sk: "lookup_bool (SkipArtifacts (Opts p)) aid"
    and en: "aid \<in> set (enabledArtifacts X p)"
  shows "(\<forall>e \<in> set (effects (run_and_write X sched inp p sc)). effect_artifact e \<noteq> Some aid)
       \<and> lock_out (run_and_write X sched inp p sc) aid = in_lockFile inp aid
       \<and> (\<forall>r \<in> set (results_out (run_and_write X sched inp p sc)).
             ID r = aid \<longrightarrow> Content r = [] \<and> Err r = None \<and> Response r = None)
       \<and> (exit_error (run_and_write X sched inp p sc) = None \<longrightarrow>
             (\<exists>r \<in> set (results_out (run_and_write X sched inp p sc)). ID r = aid))"
proof -
  let ?results = "fst (Run X sched p)"
  let ?skipres = "\<lparr>ID = aid, Content = [], FilePath = artifactPath X p aid, Response = None, Err = None\<rparr>"
  have res: "Content r = [] \<and> Err r = None \<and> Response r = None" if "r \<in> set ?results" "ID r = aid" for r
    using Run_skipped_result [OF nd sk that] by simp
  have calls: "effect_artifact e \<noteq> Some aid" if "e \<in> set (snd (snd (Run X sched p)))" for e
    using Run_skipped_no_call [OF nd sk that] .
  have "?skipres \<in> set ?results" if "fst (snd (Run X sched p)) = None"
    using Run_ok_results [OF that] en generateArtifact_skip [OF nd sk, of X "msg_order sched aid"]
    by force
  then have present: "\<exists>r \<in> set ?results. ID r = aid" if "fst (snd (Run X sched p)) = None"
    using that by force
  show ?thesis
  proof (cases rule: run_and_write_cases [of X sched p inp sc])
    case (run_failed err)
    with res calls show ?thesis by simp
  next
    case no_write
    with res calls present show ?thesis by simp
  next
    case (write_failed err)
    have "effect_artifact e \<noteq> Some aid"
      if "e \<in> set (snd (WriteResults X (in_outputDir inp) ?results))" for e
      using WriteResults_effects [OF that] res by force
    with write_failed res calls show ?thesis by auto
  next
    case written
    let ?results' = "fst (changelog_loop X (in_outputDir inp) (in_prevArtifacts inp) ?results)"
    have res': "Content r = [] \<and> Err r = None \<and> Response r = None" if "r \<in> set ?results'" "ID r = aid" for r
      using that res unfolding changelog_loop_map by (auto split: if_splits)
    have w: "effect_artifact e \<noteq> Some aid"
      if "e \<in> set (snd (WriteResults X (in_outputDir inp) ?results))" for e
      using WriteResults_effects [OF that] res by force
    have a: "effect_artifact e \<noteq> Some aid"
      if "e \<in> set (snd (changelog_loop X (in_outputDir inp) (in_prevArtifacts inp) ?results))" for e
      using changelog_loop_effects [OF that] res by force
    have u: "effect_artifact e \<noteq> Some aid"
      if "e \<in> set (snd (update_loop X sched p sc ?results' (in_lockFile inp)))" for e
      using update_loop_effects [OF that] res' by force
    have l: "fst (update_loop X sched p sc ?results' (in_lockFile inp)) aid = in_lockFile inp aid"
      by (rule update_loop_frame) (use res' in force)
    have pr: "\<exists>r \<in> set ?results'. ID r = aid"
    proof -
      from present [OF written(1)] obtain r where r: "r \<in> set ?results" "ID r = aid" by blast
      with res [OF r] have "r \<in> set ?results'" unfolding changelog_loop_map by force
      with r show ?thesis by blast
    qed
    from written(5) calls w a u l res' pr show ?thesis
      by (auto simp: Let_def)
  qed
qed


lemma build_pipeline_Opts [simp]:
  "DryRun (Opts (build_pipeline inp parsedIR prov)) = in_dryRun inp"
  by (simp add: build_pipeline_def)

lemma runGenerate_checked:
  assumes "\<not> in_force inp" and "\<not> in_dryRun inp"
    and "ProcessSources (in_registry inp) (in_sources inp) = (Some parsedIR, ws, None)"
    and "in_provider inp = Inr g"
  shows "runGenerate X sched inp =
     (if snd (cache_check X sched (build_pipeline inp parsedIR (Some g)) (json_Marshal X parsedIR)
                (in_lockFile inp))
      then \<lparr>exit_error = None, effects = [], lock_out = in_lockFile inp, results_out = []\<rparr>
      else run_and_write X sched inp
             (with_skip (build_pipeline inp parsedIR (Some g))
                (fst (cache_check X sched (build_pipeline inp parsedIR (Some g))
                        (json_Marshal X parsedIR) (in_lockFile inp))))
             (json_Marshal X parsedIR))"
  using assms by (simp add: runGenerate_def Let_def case_prod_beta)

text \<open>
  C4, as amended. In a run with neither force nor dry-run, where the sources are
  processed and the provider is created, take an enabled artifact that is a cache hit.
  Then no effect of the run belongs to it (no provider call, no directory, no file, no
  cache file); its LockFile entry at the end is the one loaded; every result for it is
  free of error, with empty content and no response; and when the run ends without error
  after running the pipeline, there is such a result. (When all eight artifacts are cache
  hits the pipeline is not run and there are no results.)
\<close>

theorem cache_hit_is_skipped:
  assumes "\<not> in_force inp" and "\<not> in_dryRun inp"
    and "ProcessSources (in_registry inp) (in_sources inp) = (Some parsedIR, ws, None)"
    and "in_provider inp = Inr g"
    and "aid \<in> set (enabledArtifacts X (build_pipeline inp parsedIR (Some g)))"
    and "cache_hit X sched (build_pipeline inp parsedIR (Some g)) (json_Marshal X parsedIR)
           (in_lockFile inp) aid"
  shows "(\<forall>e \<in> set (effects (runGenerate X sched inp)). effect_artifact e \<noteq> Some aid)
       \<and> lock_out (runGenerate X sched inp) aid = in_lockFile inp aid
       \<and> (\<forall>r \<in> set (results_out (runGenerate X sched inp)).
             ID r = aid \<longrightarrow> Content r = [] \<and> Err r = None \<and> Response r = None)
       \<and> (exit_error (runGenerate X sched inp) = None \<and> results_out (runGenerate X sched inp) \<noteq> []
             \<longrightarrow> (\<exists>r \<in> set (results_out (runGenerate X sched inp)). ID r = aid))"
proof -
  let ?p = "build_pipeline inp parsedIR (Some g)"
  let ?sc = "json_Marshal X parsedIR"
  let ?cc = "cache_check X sched ?p ?sc (in_lockFile inp)"
  show ?thesis
  proof (cases "snd ?cc")
    case True
    with runGenerate_checked [OF assms(1-4), of X sched] show ?thesis by simp
  next
    case False
    have sk: "lookup_bool (SkipArtifacts (Opts (with_skip ?p (fst ?cc)))) aid"
      using assms(5,6) by (simp add: cache_check_skip enabled_in_AllArtifacts)
    have nd: "\<not> DryRun (Opts (with_skip ?p (fst ?cc)))" using assms(2) by simp
    have en: "aid \<in> set (enabledArtifacts X (with_skip ?p (fst ?cc)))" using assms(5) by simp
    from run_and_write_skipped [where X = X and sched = sched and inp = inp and sc = ?sc, OF nd sk en] False
      runGenerate_checked [OF assms(1-4), of X sched]
    show ?thesis by simp
  qed
qed

lemma Run_all_skipped:
  assumes nd: "\<not> DryRun (Opts p)"
    and sk: "\<forall>aid \<in> set (enabledArtifacts X p). lookup_bool (SkipArtifacts (Opts p)) aid"
  shows "fst (snd (Run X sched p)) = None" and "snd (snd (Run X sched p)) = []"
    and "\<forall>r \<in> set (fst (Run X sched p)). Content r = [] \<and> Err r = None"
proof -
  have gen: "generateArtifact X (msg_order sched aid) p aid =
      (\<lparr>ID = aid, Content = [], FilePath = artifactPath X p aid, Response = None, Err = None\<rparr>, [])"
    if "aid \<in> set (enabledArtifacts X p)" for aid
    using generateArtifact_skip [OF nd, of aid X "msg_order sched aid"] sk that by simp
  show res: "\<forall>r \<in> set (fst (Run X sched p)). Content r = [] \<and> Err r = None"
  proof
    fix r assume r: "r \<in> set (fst (Run X sched p))"
    from Run_results [OF r] have en: "ID r \<in> set (enabledArtifacts X p)"
      and eq: "r = fst (generateArtifact X (msg_order sched (ID r)) p (ID r))" by simp_all
    from arg_cong [OF eq, of Content] arg_cong [OF eq, of Err] gen [OF en]
    show "Content r = [] \<and> Err r = None" by simp
  qed
  show "snd (snd (Run X sched p)) = []"
  proof (rule ccontr)
    assume "snd (snd (Run X sched p)) \<noteq> []"
    then obtain e where e: "e \<in> set (snd (snd (Run X sched p)))" by (cases "snd (snd (Run X sched p))") auto
    from Run_calls [OF e] obtain aid where "aid \<in> set (enabledArtifacts X p)"
      "e \<in> set (snd (generateArtifact X (msg_order sched aid) p aid))" by blast
    with gen [of aid] show False by simp
  qed
  show "fst (snd (Run X sched p)) = None"
  proof (cases rule: Run_cases [of X sched p])
    case (parallel_error err)
    then obtain r where "r \<in> set (map fst (parallel_finished X sched p))" "Err r \<noteq> None"
      using check_errors_None [of "map fst (parallel_finished X sched p)"] by auto
    with parallel_error(2) res show ?thesis by auto
  next
    case no_changelog
    then show ?thesis by simp
  next
    case changelog
    with gen [of ArtifactChangelog] show ?thesis by simp
  qed
qed

lemma Run_ok_IDs:
  assumes "fst (snd (Run X sched p)) = None"
  shows "ID ` set (fst (Run X sched p)) = set (enabledArtifacts X p)"
proof (intro equalityI subsetI)
  fix a assume "a \<in> ID ` set (fst (Run X sched p))"
  then obtain r where "r \<in> set (fst (Run X sched p))" "a = ID r" by blast
  with Run_results [of r X sched p] show "a \<in> set (enabledArtifacts X p)" by simp
next
  fix a assume "a \<in> set (enabledArtifacts X p)"
  with Run_ok_results [OF assms]
  have "fst (generateArtifact X (msg_order sched a) p a) \<in> set (fst (Run X sched p))" by blast
  then have "ID (fst (generateArtifact X (msg_order sched a) p a)) \<in> ID ` set (fst (Run X sched p))"
    by (rule imageI)
  then show "a \<in> ID ` set (fst (Run X sched p))" by (simp add: generateArtifact_ID)
qed

text \<open>
  C5, as amended. In a run with neither force nor dry-run, where the sources are
  processed and the provider is created: if every enabled artifact is a cache hit, the
  run returns no error, calls the provider for no artifact (the changelog included),
  makes no directory and writes no file, and leaves the LockFile entries as loaded. It
  returns at the cache check, with no effect at all and without running the pipeline,
  exactly when all artifacts of the fixed sequence, enabled or not, are cache hits;
  otherwise it runs the pipeline, which returns a result for each enabled artifact, all
  skipped, and outside diff mode saves the LockFile it loaded.
\<close>

theorem all_enabled_cache_hits:
  assumes "\<not> in_force inp" and "\<not> in_dryRun inp"
    and "ProcessSources (in_registry inp) (in_sources inp) = (Some parsedIR, ws, None)"
    and "in_provider inp = Inr g"
    and "\<forall>aid \<in> set (enabledArtifacts X (build_pipeline inp parsedIR (Some g))).
           cache_hit X sched (build_pipeline inp parsedIR (Some g)) (json_Marshal X parsedIR)
             (in_lockFile inp) aid"
  shows "exit_error (runGenerate X sched inp) = None
       \<and> (effects (runGenerate X sched inp) = []
            \<or> effects (runGenerate X sched inp) = [SaveLockFile (in_lockFile inp)])
       \<and> lock_out (runGenerate X sched inp) = in_lockFile inp
       \<and> (\<forall>r \<in> set (results_out (runGenerate X sched inp)). Content r = [] \<and> Err r = None)
       \<and> ((\<forall>aid \<in> set AllArtifacts.
              cache_hit X sched (build_pipeline inp parsedIR (Some g)) (json_Marshal X parsedIR)
                (in_lockFile inp) aid)
            \<longrightarrow> effects (runGenerate X sched inp) = [] \<and> results_out (runGenerate X sched inp) = [])
       \<and> ((\<exists>aid \<in> set AllArtifacts.
              \<not> cache_hit X sched (build_pipeline inp parsedIR (Some g)) (json_Marshal X parsedIR)
                  (in_lockFile inp) aid)
            \<longrightarrow> ID ` set (results_out (runGenerate X sched inp))
                  = set (enabledArtifacts X (build_pipeline inp parsedIR (Some g)))
                \<and> effects (runGenerate X sched inp)
                  = (if in_diffMode inp then [] else [SaveLockFile (in_lockFile inp)]))"
proof -
  let ?p = "build_pipeline inp parsedIR (Some g)"
  let ?sc = "json_Marshal X parsedIR"
  let ?cc = "cache_check X sched ?p ?sc (in_lockFile inp)"
  let ?P = "with_skip ?p (fst ?cc)"
  show ?thesis
  proof (cases "snd ?cc")
    case True
    with runGenerate_checked [OF assms(1-4), of X sched] show ?thesis
      by (simp add: cache_check_all)
  next
    case False
    then have rg: "runGenerate X sched inp = run_and_write X sched inp ?P ?sc"
      using runGenerate_checked [OF assms(1-4), of X sched] by simp
    have nd: "\<not> DryRun (Opts ?P)" using assms(2) by simp
    have sk: "\<forall>aid \<in> set (enabledArtifacts X ?P). lookup_bool (SkipArtifacts (Opts ?P)) aid"
      using assms(5) by (simp add: cache_check_skip enabled_in_AllArtifacts)
    note R = Run_all_skipped [where X = X and sched = sched, OF nd sk]
    from Run_ok_IDs [OF R(1)] have ids: "ID ` set (fst (Run X sched ?P)) = set (enabledArtifacts X ?p)"
      by simp
    from R(3) have empty: "\<forall>r \<in> set (fst (Run X sched ?P)). Content r = []" by simp
    have stale: "\<exists>aid \<in> set AllArtifacts. \<not> cache_hit X sched ?p ?sc (in_lockFile inp) aid"
      using False by (simp add: cache_check_all)
    show ?thesis
    proof (cases rule: run_and_write_cases [of X sched ?P inp ?sc])
      case (run_failed err)
      with R(1) show ?thesis by simp
    next
      case no_write
      with assms(2) R rg stale ids show ?thesis by auto
    next
      case (write_failed err)
      with WriteResults_all_empty [OF empty, of X "in_outputDir inp"] show ?thesis by simp
    next
      case written
      with rg R stale ids
        WriteResults_all_empty [OF empty, of X "in_outputDir inp"]
        changelog_loop_all_empty [OF empty, of X "in_outputDir inp" "in_prevArtifacts inp"]
        update_loop_all_empty [OF empty, of X sched ?P ?sc "in_lockFile inp"]
      show ?thesis by (auto simp: Let_def)
    qed
  qed
qed

subsection \<open>Cache hits in the runs of the world above\<close>

lemma demo_ProcessSources_IR:
  "ProcessSources (in_registry (demo_input only force dry prev lock))
     (in_sources (demo_input only force dry prev lock))
   = (Some demo_IR, [\<lparr>Message = ''no auth in a'', Path = ''cli''\<rparr>], None)"
  by (simp add: demo_input_def demo_ProcessSources demo_IR_def)

theorem cache_hit_is_skipped_witness:
  "list_all (\<lambda>e. effect_artifact e \<noteq> Some ''skill'')
     (effects (runGenerate demo_X demo_sched
        (demo_input [''skill'', ''changelog''] False False Map.empty (demo_lock [''skill'']))))
   \<and> lock_out (runGenerate demo_X demo_sched
        (demo_input [''skill'', ''changelog''] False False Map.empty (demo_lock [''skill'']))) ''skill''
      = demo_lock [''skill''] ''skill''
   \<and> map (\<lambda>r. (ID r, Content r, Err r))
       (results_out (runGenerate demo_X demo_sched
          (demo_input [''skill'', ''changelog''] False False Map.empty (demo_lock [''skill'']))))
      = [(''skill'', [], None), (''changelog'', ''FRESH<P:changelog>'' @ nl, None)]
   \<and> map effect_artifact
       (effects (runGenerate demo_X demo_sched
          (demo_input [''skill'', ''changelog''] False False Map.empty (demo_lock [''skill'']))))
      = [Some ''changelog'', Some ''changelog'', Some ''changelog'', Some ''changelog'',
         Some ''changelog'', Some ''changelog'', None]"
proof -
  let ?inp = "demo_input [''skill'', ''changelog''] False False Map.empty (demo_lock [''skill''])"
  let ?out = "runGenerate demo_X demo_sched ?inp"
  have f: "\<not> in_force ?inp" and d: "\<not> in_dryRun ?inp" and g: "in_provider ?inp = Inr demo_provider"
    by (simp_all add: demo_input_def)
  have en: "''skill'' \<in> set (enabledArtifacts demo_X (build_pipeline ?inp demo_IR (Some demo_provider)))"
    by (simp add: enabledArtifacts_def build_pipeline_def demo_input_def lookup_bool_def
        AllArtifacts_def demo_X_def demo_normalize_ids)
  have hit: "cache_hit demo_X demo_sched (build_pipeline ?inp demo_IR (Some demo_provider))
      (json_Marshal demo_X demo_IR) (in_lockFile ?inp) ''skill''"
    by (simp add: cache_hit_def IsUpToDate_def inputHash_def SystemPromptFor_def systemPrompt_def
        RelevantSections_def range_map_def demo_defs demo_IR_def build_pipeline_def Let_def)
  from cache_hit_is_skipped [OF f d demo_ProcessSources_IR g en hit]
  have a: "list_all (\<lambda>e. effect_artifact e \<noteq> Some ''skill'') (effects ?out)"
    and b: "lock_out ?out ''skill'' = demo_lock [''skill''] ''skill''"
    by (simp_all add: list_all_iff) (simp add: demo_input_def)
  have c: "map (\<lambda>r. (ID r, Content r, Err r)) (results_out ?out)
      = [(''skill'', [], None), (''changelog'', ''FRESH<P:changelog>'' @ nl, None)]"
    by (simp add: run_defs demo_defs demo_ProcessSources demo_normalize_ids)
  have e: "map effect_artifact (effects ?out)
      = [Some ''changelog'', Some ''changelog'', Some ''changelog'', Some ''changelog'',
         Some ''changelog'', Some ''changelog'', None]"
    by (simp add: run_defs demo_defs demo_ProcessSources demo_normalize_ids)
  from a b c e show ?thesis by simp
qed


lemmas hit_defs =
  cache_hit_def IsUpToDate_def inputHash_def SystemPromptFor_def systemPrompt_def
  RelevantSections_def range_map_def demo_defs demo_IR_def build_pipeline_def Let_def

lemmas enabled_defs =
  enabledArtifacts_def build_pipeline_def demo_input_def lookup_bool_def AllArtifacts_def
  demo_X_def demo_normalize_ids

text \<open>
  C4 as stated fails. With the force flag, the enabled artifact \<open>skill\<close>, a cache hit, is
  generated, written and its LockFile entry replaced. In a dry run its result has a
  content. And when all eight artifacts are cache hits there is no result at all.
\<close>

theorem cache_hit_regenerated_when_forced:
  "''skill'' \<in> set (enabledArtifacts demo_X (build_pipeline
        (demo_input [''skill''] True False Map.empty (demo_lock AllArtifacts)) demo_IR (Some demo_provider)))
   \<and> cache_hit demo_X demo_sched
        (build_pipeline (demo_input [''skill''] True False Map.empty (demo_lock AllArtifacts))
           demo_IR (Some demo_provider))
        (json_Marshal demo_X demo_IR) (demo_lock AllArtifacts) ''skill''
   \<and> map (\<lambda>r. (ID r, Content r, Err r))
       (results_out (runGenerate demo_X demo_sched
          (demo_input [''skill''] True False Map.empty (demo_lock AllArtifacts))))
      = [(''skill'', ''FRESH<P:skill>'', None)]
   \<and> map (\<lambda>e. (effect_artifact e, is_Generate e))
       (effects (runGenerate demo_X demo_sched
          (demo_input [''skill''] True False Map.empty (demo_lock AllArtifacts))))
      = [(Some ''skill'', True), (Some ''skill'', False), (Some ''skill'', False),
         (Some ''skill'', False), (None, False)]
   \<and> map_option OutputHash (demo_lock AllArtifacts ''skill'') = Some ''old''
   \<and> map_option OutputHash
       (lock_out (runGenerate demo_X demo_sched
          (demo_input [''skill''] True False Map.empty (demo_lock AllArtifacts))) ''skill'')
      = Some ''sha(FRESH<P:skill>)''
   \<and> map (\<lambda>r. (ID r, Content r \<noteq> [], Err r))
       (results_out (runGenerate demo_X demo_sched
          (demo_input [''skill''] False True Map.empty (demo_lock AllArtifacts))))
      = [(''skill'', True, None)]
   \<and> results_out (runGenerate demo_X demo_sched
          (demo_input [''skill''] False False Map.empty (demo_lock AllArtifacts))) = []"
proof -
  have 1: "''skill'' \<in> set (enabledArtifacts demo_X (build_pipeline
        (demo_input [''skill''] True False Map.empty (demo_lock AllArtifacts)) demo_IR (Some demo_provider)))"
    by (simp add: enabled_defs)
  have 2: "cache_hit demo_X demo_sched
        (build_pipeline (demo_input [''skill''] True False Map.empty (demo_lock AllArtifacts))
           demo_IR (Some demo_provider))
        (json_Marshal demo_X demo_IR) (demo_lock AllArtifacts) ''skill''"
    by (simp add: hit_defs AllArtifacts_def)
  have 3: "map (\<lambda>r. (ID r, Content r, Err r))
       (results_out (runGenerate demo_X demo_sched
          (demo_input [''skill''] True False Map.empty (demo_lock AllArtifacts))))
      = [(''skill'', ''FRESH<P:skill>'', None)]"
    by (simp add: run_defs demo_defs demo_ProcessSources demo_normalize_ids)
  have 4: "map (\<lambda>e. (effect_artifact e, is_Generate e))
       (effects (runGenerate demo_X demo_sched
          (demo_input [''skill''] True False Map.empty (demo_lock AllArtifacts))))
      = [(Some ''skill'', True), (Some ''skill'', False), (Some ''skill'', False),
         (Some ''skill'', False), (None, False)]"
    by (simp add: run_defs demo_defs demo_ProcessSources demo_normalize_ids)
  have 5: "map_option OutputHash (demo_lock AllArtifacts ''skill'') = Some ''old''"
    by (simp add: demo_lock_def AllArtifacts_def)
  have 6: "map_option OutputHash
       (lock_out (runGenerate demo_X demo_sched
          (demo_input [''skill''] True False Map.empty (demo_lock AllArtifacts))) ''skill'')
      = Some ''sha(FRESH<P:skill>)''"
    by (simp add: run_defs demo_defs demo_ProcessSources demo_normalize_ids)
  have 7: "map (\<lambda>r. (ID r, Content r \<noteq> [], Err r))
       (results_out (runGenerate demo_X demo_sched
          (demo_input [''skill''] False True Map.empty (demo_lock AllArtifacts))))
      = [(''skill'', True, None)]"
    by (simp add: run_defs demo_defs demo_ProcessSources demo_normalize_ids)
  have 8: "results_out (runGenerate demo_X demo_sched
          (demo_input [''skill''] False False Map.empty (demo_lock AllArtifacts))) = []"
    by (simp add: run_defs demo_defs demo_ProcessSources demo_normalize_ids)
  from 1 2 3 4 5 6 7 8 show ?thesis by blast
qed

theorem all_enabled_cache_hits_witness:
  "exit_error (runGenerate demo_X demo_sched
      (demo_input [''skill'', ''changelog''] False False Map.empty (demo_lock [''skill'', ''changelog''])))
     = None
   \<and> map effect_artifact (effects (runGenerate demo_X demo_sched
      (demo_input [''skill'', ''changelog''] False False Map.empty (demo_lock [''skill'', ''changelog'']))))
     = [None]
   \<and> lock_out (runGenerate demo_X demo_sched
      (demo_input [''skill'', ''changelog''] False False Map.empty (demo_lock [''skill'', ''changelog''])))
     = demo_lock [''skill'', ''changelog'']
   \<and> map (\<lambda>r. (ID r, Content r, Err r)) (results_out (runGenerate demo_X demo_sched
      (demo_input [''skill'', ''changelog''] False False Map.empty (demo_lock [''skill'', ''changelog'']))))
     = [(''skill'', [], None), (''changelog'', [], None)]
   \<and> exit_error (runGenerate demo_X demo_sched
      (demo_input [''skill'', ''changelog''] False False Map.empty (demo_lock AllArtifacts)))
     = None
   \<and> effects (runGenerate demo_X demo_sched
      (demo_input [''skill'', ''changelog''] False False Map.empty (demo_lock AllArtifacts)))
     = []
   \<and> results_out (runGenerate demo_X demo_sched
      (demo_input [''skill'', ''changelog''] False False Map.empty (demo_lock AllArtifacts)))
     = []"
proof -
  let ?inp1 = "demo_input [''skill'', ''changelog''] False False Map.empty (demo_lock [''skill'', ''changelog''])"
  let ?inp2 = "demo_input [''skill'', ''changelog''] False False Map.empty (demo_lock AllArtifacts)"
  let ?p1 = "build_pipeline ?inp1 demo_IR (Some demo_provider)"
  let ?p2 = "build_pipeline ?inp2 demo_IR (Some demo_provider)"
  have f1: "\<not> in_force ?inp1" and d1: "\<not> in_dryRun ?inp1" and g1: "in_provider ?inp1 = Inr demo_provider"
    and f2: "\<not> in_force ?inp2" and d2: "\<not> in_dryRun ?inp2" and g2: "in_provider ?inp2 = Inr demo_provider"
    by (simp_all add: demo_input_def)
  have en1: "enabledArtifacts demo_X ?p1 = [''skill'', ''changelog'']"
    and en2: "enabledArtifacts demo_X ?p2 = [''skill'', ''changelog'']"
    by (simp_all add: enabled_defs)
  have h1: "\<forall>aid \<in> set (enabledArtifacts demo_X ?p1).
      cache_hit demo_X demo_sched ?p1 (json_Marshal demo_X demo_IR) (in_lockFile ?inp1) aid"
    unfolding en1 by (simp add: hit_defs)
  have all2: "\<forall>aid \<in> set AllArtifacts.
      cache_hit demo_X demo_sched ?p2 (json_Marshal demo_X demo_IR) (in_lockFile ?inp2) aid"
    by (simp add: hit_defs AllArtifacts_def)
  then have h2: "\<forall>aid \<in> set (enabledArtifacts demo_X ?p2).
      cache_hit demo_X demo_sched ?p2 (json_Marshal demo_X demo_IR) (in_lockFile ?inp2) aid"
    using enabled_in_AllArtifacts by blast
  have stale1: "\<exists>aid \<in> set AllArtifacts.
      \<not> cache_hit demo_X demo_sched ?p1 (json_Marshal demo_X demo_IR) (in_lockFile ?inp1) aid"
    by (simp add: hit_defs AllArtifacts_def)
  note t1 = all_enabled_cache_hits [OF f1 d1 demo_ProcessSources_IR g1 h1]
  note t2 = all_enabled_cache_hits [OF f2 d2 demo_ProcessSources_IR g2 h2]
  from t1 stale1 have a: "exit_error (runGenerate demo_X demo_sched ?inp1) = None"
    and b: "effects (runGenerate demo_X demo_sched ?inp1) = [SaveLockFile (in_lockFile ?inp1)]"
    and c: "lock_out (runGenerate demo_X demo_sched ?inp1) = in_lockFile ?inp1"
    by (simp_all add: demo_input_def)
  from t2 all2 have d: "exit_error (runGenerate demo_X demo_sched ?inp2) = None"
    and e: "effects (runGenerate demo_X demo_sched ?inp2) = []"
    and f: "results_out (runGenerate demo_X demo_sched ?inp2) = []"
    by simp_all
  have r: "map (\<lambda>r. (ID r, Content r, Err r)) (results_out (runGenerate demo_X demo_sched ?inp1))
     = [(''skill'', [], None), (''changelog'', [], None)]"
    by (simp add: run_defs demo_defs demo_ProcessSources demo_normalize_ids)
  from a b c d e f r show ?thesis by (simp add: demo_input_def)
qed

text \<open>
  C5 as stated fails. With the force flag and every enabled artifact a cache hit, the
  provider is called for each of them, the changelog included. And without the flag,
  when the one enabled artifact is a cache hit and artifacts that are not enabled are
  stale, the run does not stop at the cache check: the pipeline returns its result and
  the LockFile is saved.
\<close>

theorem all_hits_regenerated_when_forced:
  "enabledArtifacts demo_X (build_pipeline
        (demo_input [''reference'', ''changelog''] True False Map.empty (demo_lock AllArtifacts))
        demo_IR (Some demo_provider)) = [''reference'', ''changelog'']
   \<and> list_all (cache_hit demo_X demo_sched
        (build_pipeline (demo_input [''reference'', ''changelog''] True False Map.empty (demo_lock AllArtifacts))
           demo_IR (Some demo_provider))
        (json_Marshal demo_X demo_IR) (demo_lock AllArtifacts)) [''reference'', ''changelog'']
   \<and> map effect_artifact (filter is_Generate
       (effects (runGenerate demo_X demo_sched
          (demo_input [''reference'', ''changelog''] True False Map.empty (demo_lock AllArtifacts)))))
      = [Some ''reference'', Some ''changelog'']
   \<and> enabledArtifacts demo_X (build_pipeline
        (demo_input [''skill''] False False Map.empty (demo_lock [''skill'']))
        demo_IR (Some demo_provider)) = [''skill'']
   \<and> cache_hit demo_X demo_sched
        (build_pipeline (demo_input [''skill''] False False Map.empty (demo_lock [''skill'']))
           demo_IR (Some demo_provider))
        (json_Marshal demo_X demo_IR) (demo_lock [''skill'']) ''skill''
   \<and> map (\<lambda>r. (ID r, Content r, Err r))
       (results_out (runGenerate demo_X demo_sched
          (demo_input [''skill''] False False Map.empty (demo_lock [''skill'']))))
      = [(''skill'', [], None)]
   \<and> map effect_artifact
       (effects (runGenerate demo_X demo_sched
          (demo_input [''skill''] False False Map.empty (demo_lock [''skill'']))))
      = [None]"
proof -
  have 1: "enabledArtifacts demo_X (build_pipeline
        (demo_input [''reference'', ''changelog''] True False Map.empty (demo_lock AllArtifacts))
        demo_IR (Some demo_provider)) = [''reference'', ''changelog'']"
    by (simp add: enabled_defs)
  have 2: "list_all (cache_hit demo_X demo_sched
        (build_pipeline (demo_input [''reference'', ''changelog''] True False Map.empty (demo_lock AllArtifacts))
           demo_IR (Some demo_provider))
        (json_Marshal demo_X demo_IR) (demo_lock AllArtifacts)) [''reference'', ''changelog'']"
    by (simp add: hit_defs AllArtifacts_def)
  have 3: "map effect_artifact (filter is_Generate
       (effects (runGenerate demo_X demo_sched
          (demo_input [''reference'', ''changelog''] True False Map.empty (demo_lock AllArtifacts)))))
      = [Some ''reference'', Some ''changelog'']"
    by (simp add: run_defs demo_defs demo_ProcessSources demo_normalize_ids)
  have 4: "enabledArtifacts demo_X (build_pipeline
        (demo_input [''skill''] False False Map.empty (demo_lock [''skill'']))
        demo_IR (Some demo_provider)) = [''skill'']"
    by (simp add: enabled_defs)
  have 5: "cache_hit demo_X demo_sched
        (build_pipeline (demo_input [''skill''] False False Map.empty (demo_lock [''skill'']))
           demo_IR (Some demo_provider))
        (json_Marshal demo_X demo_IR) (demo_lock [''skill'']) ''skill''"
    by (simp add: hit_defs)
  have 6: "map (\<lambda>r. (ID r, Content r, Err r))
       (results_out (runGenerate demo_X demo_sched
          (demo_input [''skill''] False False Map.empty (demo_lock [''skill'']))))
      = [(''skill'', [], None)]"
    by (simp add: run_defs demo_defs demo_ProcessSources demo_normalize_ids)
  have 7: "map effect_artifact
       (effects (runGenerate demo_X demo_sched
          (demo_input [''skill''] False False Map.empty (demo_lock [''skill'']))))
      = [None]"
    by (simp add: run_defs demo_defs demo_ProcessSources demo_normalize_ids)
  from 1 2 3 4 5 6 7 show ?thesis by blast
qed

section \<open>The drift query\<close>

lemma cache_hit_cong:
  "Inst p = Inst q \<Longrightarrow>
   cache_hit X sched p specContent lockFile aid = cache_hit X sched q specContent lockFile aid"
  by (simp add: cache_hit_def inputHash_def RelevantSections_def SystemPromptFor_def
      systemPrompt_def)

lemma drift_loop_gen:
  "foldl (\<lambda>(printed, drifted) aid.
              if \<not> IsUpToDate lockFile aid (inputHash X (check_order sched aid) pipeline specContent aid)
              then (printed @ [aid], True)
              else (printed, drifted))
       (printed, drifted) xs
   = (printed @ filter (\<lambda>a. \<not> cache_hit X sched pipeline specContent lockFile a) xs,
      drifted \<or> (\<exists>a \<in> set xs. \<not> cache_hit X sched pipeline specContent lockFile a))"
  by (induction xs arbitrary: printed drifted) (auto simp: cache_hit_def)

lemma drift_loop_eq:
  "drift_loop X sched pipeline specContent lockFile
     = (filter (\<lambda>a. \<not> cache_hit X sched pipeline specContent lockFile a) AllArtifacts,
        filter (\<lambda>a. \<not> cache_hit X sched pipeline specContent lockFile a) AllArtifacts \<noteq> [])"
  unfolding drift_loop_def drift_loop_gen by (auto simp: filter_empty_conv)

lemma against_loop_keeps_drift:
  "snd (foldl (\<lambda>(printed, drifted) aid.
              (let filePath = ArtifactPath X pipeline aid;
                   currentPath = filepath_Join X [outputDir, filePath];
                   againstPath = filepath_Join X [againstDir, filePath]
               in case (os_ReadFile X currentPath, os_ReadFile X againstPath) of
                    (None, None) \<Rightarrow> (printed, drifted)
                  | (None, Some againstData) \<Rightarrow>
                      (printed @ [''  REMOVED: '' @ filePath @ '' (exists in '' @ againstDir
                                  @ '' but not in '' @ outputDir @ '')''], True)
                  | (Some currentData, None) \<Rightarrow>
                      (printed @ [''  ADDED:   '' @ filePath @ '' (exists in '' @ outputDir
                                  @ '' but not in '' @ againstDir @ '')''], True)
                  | (Some currentData, Some againstData) \<Rightarrow>
                      if currentData \<noteq> againstData
                      then (printed @ [''  CHANGED: '' @ filePath], True)
                      else (printed, drifted)))
       (printed, True) xs)"
  by (induction xs arbitrary: printed) (auto simp: Let_def split: option.splits)

lemma against_loop_drifted:
  "snd (against_loop X pipeline outputDir againstDir (printed, True))"
  unfolding against_loop_def by (rule against_loop_keeps_drift)

lemma filter_single:
  "distinct xs \<Longrightarrow> aid \<in> set xs \<Longrightarrow> filter (\<lambda>a. a = aid) xs = [aid]"
  by (induction xs) (auto simp: filter_empty_conv)

lemma distinct_AllArtifacts: "distinct AllArtifacts"
  by (simp add: AllArtifacts_def)

lemma runDiff_ok:
  assumes "ProcessSources (din_registry inp) (din_sources inp) = (Some parsedIR, ws, None)"
  shows "runDiff X sched inp =
     (let specContent = json_Marshal X parsedIR;
          pipeline = \<lparr>Provider = None, IR = parsedIR, Inst = din_inst inp,
                      Opts = \<lparr>OutputDir = [], Only = [], Force = False, DryRun = False,
                              Diff = False, Verbose = False, PrevArtifacts = Map.empty,
                              SkipArtifacts = Map.empty\<rparr>\<rparr>;
          ids = filter (\<lambda>a. \<not> cache_hit X sched pipeline specContent (din_lockFile inp) a) AllArtifacts;
          after = (if din_againstDir inp \<noteq> [] then
                     against_loop X pipeline (Out (Frontmatter (din_inst inp))) (din_againstDir inp)
                       ([], ids \<noteq> [])
                   else ([], ids \<noteq> []))
      in \<lparr>diff_error = None, drifted_ids = ids, file_lines = fst after,
          exit_status = (if snd after then 1 else 0),
          diff_effects = [], diff_lock_out = din_lockFile inp\<rparr>)"
  using assms by (simp add: runDiff_def drift_loop_eq Let_def case_prod_beta)

text \<open>
  C8, as amended. The drift query computes, for every artifact of the fixed sequence,
  enabled or not, the input hash by the formula of the cache check of \<open>runGenerate\<close> (the
  cache check on the same instructions skips exactly the artifacts the query does not
  report), and reports, in the order of the sequence, exactly the artifacts whose stored
  entry does not hold that hash. When one artifact of the sequence is stale and the
  others are not, it reports exactly that one. It exits with status 1 when it reports
  an artifact, and with 0 when it reports none and no directory is compared. It has no
  effect (no provider call, no write) and leaves the LockFile as loaded.
\<close>

theorem drift_query_reports_stale_artifacts:
  assumes "ProcessSources (din_registry inp) (din_sources inp) = (Some parsedIR, ws, None)"
    and "Inst p = din_inst inp"
  shows "diff_error (runDiff X sched inp) = None
       \<and> drifted_ids (runDiff X sched inp)
           = filter (\<lambda>aid. \<not> cache_hit X sched p (json_Marshal X parsedIR) (din_lockFile inp) aid)
               AllArtifacts
       \<and> (\<forall>aid. lookup_bool (fst (cache_check X sched p (json_Marshal X parsedIR) (din_lockFile inp))) aid
             = (aid \<in> set AllArtifacts \<and> aid \<notin> set (drifted_ids (runDiff X sched inp))))
       \<and> (\<forall>aid \<in> set AllArtifacts.
             (\<forall>a \<in> set AllArtifacts.
                cache_hit X sched p (json_Marshal X parsedIR) (din_lockFile inp) a = (a \<noteq> aid))
             \<longrightarrow> drifted_ids (runDiff X sched inp) = [aid])
       \<and> (drifted_ids (runDiff X sched inp) \<noteq> [] \<longrightarrow> exit_status (runDiff X sched inp) = 1)
       \<and> (drifted_ids (runDiff X sched inp) = [] \<and> din_againstDir inp = []
             \<longrightarrow> exit_status (runDiff X sched inp) = 0)
       \<and> diff_effects (runDiff X sched inp) = []
       \<and> diff_lock_out (runDiff X sched inp) = din_lockFile inp"
proof -
  let ?q = "\<lparr>Provider = None, IR = parsedIR, Inst = din_inst inp,
             Opts = \<lparr>OutputDir = [], Only = [], Force = False, DryRun = False,
                     Diff = False, Verbose = False, PrevArtifacts = Map.empty,
                     SkipArtifacts = Map.empty\<rparr>\<rparr>"
  let ?sc = "json_Marshal X parsedIR"
  have hit: "cache_hit X sched ?q ?sc (din_lockFile inp) = cache_hit X sched p ?sc (din_lockFile inp)"
    using cache_hit_cong [of ?q p X sched ?sc "din_lockFile inp"] assms(2) by (simp add: fun_eq_iff)
  note rd = runDiff_ok [OF assms(1), of X sched, unfolded Let_def hit]
  have ids: "drifted_ids (runDiff X sched inp)
      = filter (\<lambda>aid. \<not> cache_hit X sched p ?sc (din_lockFile inp) aid) AllArtifacts"
    by (simp add: rd)
  have one: "drifted_ids (runDiff X sched inp) = [aid]"
    if "aid \<in> set AllArtifacts"
      and "\<forall>a \<in> set AllArtifacts. cache_hit X sched p ?sc (din_lockFile inp) a = (a \<noteq> aid)" for aid
  proof -
    from that(2) have "filter (\<lambda>a. \<not> cache_hit X sched p ?sc (din_lockFile inp) a) AllArtifacts
        = filter (\<lambda>a. a = aid) AllArtifacts"
      by (intro filter_cong) auto
    with filter_single [OF distinct_AllArtifacts that(1)] ids show ?thesis by simp
  qed
  have ex1: "exit_status (runDiff X sched inp) = 1" if "drifted_ids (runDiff X sched inp) \<noteq> []"
    using that by (simp add: rd against_loop_drifted)
  have ex0: "exit_status (runDiff X sched inp) = 0"
    if "drifted_ids (runDiff X sched inp) = []" "din_againstDir inp = []"
    using that by (simp add: rd)
  show ?thesis
    using one ex1 ex0 ids by (simp add: rd cache_check_skip) (auto simp: rd)
qed


definition demo_diff_input :: "LockFile \<Rightarrow> (string, string, string, string, unit) DiffInput" where
  "demo_diff_input lock =
     \<lparr>din_againstDir = [], din_lockFile = lock, din_inst = demo_inst Map.empty,
      din_sources = [demo_source ''cli'' ''a''], din_registry = demo_registry\<rparr>"

lemma demo_diff_ProcessSources:
  "ProcessSources (din_registry (demo_diff_input lock)) (din_sources (demo_diff_input lock))
   = (Some demo_IR, [\<lparr>Message = ''no auth in a'', Path = ''cli''\<rparr>], None)"
  by (simp add: demo_diff_input_def demo_ProcessSources demo_IR_def)

lemmas diff_defs =
  runDiff_def drift_loop_def inputHash_def SystemPromptFor_def systemPrompt_def
  RelevantSections_def range_map_def IsUpToDate_def AllArtifacts_def Let_def
  demo_diff_input_def demo_defs

theorem drift_query_reports_stale_artifacts_witness:
  "drifted_ids (runDiff demo_X demo_sched (demo_diff_input
      (demo_lock [''skill'', ''reference'', ''examples'', ''scripts'', ''llms-api'', ''llms-full'', ''changelog''])))
     = [''llms'']
   \<and> exit_status (runDiff demo_X demo_sched (demo_diff_input
      (demo_lock [''skill'', ''reference'', ''examples'', ''scripts'', ''llms-api'', ''llms-full'', ''changelog''])))
     = 1
   \<and> diff_error (runDiff demo_X demo_sched (demo_diff_input
      (demo_lock [''skill'', ''reference'', ''examples'', ''scripts'', ''llms-api'', ''llms-full'', ''changelog''])))
     = None
   \<and> diff_effects (runDiff demo_X demo_sched (demo_diff_input
      (demo_lock [''skill'', ''reference'', ''examples'', ''scripts'', ''llms-api'', ''llms-full'', ''changelog''])))
     = []
   \<and> diff_lock_out (runDiff demo_X demo_sched (demo_diff_input
      (demo_lock [''skill'', ''reference'', ''examples'', ''scripts'', ''llms-api'', ''llms-full'', ''changelog''])))
     = demo_lock [''skill'', ''reference'', ''examples'', ''scripts'', ''llms-api'', ''llms-full'', ''changelog'']
   \<and> drifted_ids (runDiff demo_X demo_sched (demo_diff_input (demo_lock AllArtifacts))) = []
   \<and> exit_status (runDiff demo_X demo_sched (demo_diff_input (demo_lock AllArtifacts))) = 0"
proof -
  let ?lock = "demo_lock [''skill'', ''reference'', ''examples'', ''scripts'', ''llms-api'', ''llms-full'', ''changelog'']"
  let ?inp = "demo_diff_input ?lock"
  let ?inp2 = "demo_diff_input (demo_lock AllArtifacts)"
  let ?p = "demo_run_pipeline [] Map.empty"
  have i: "Inst ?p = din_inst ?inp" "Inst ?p = din_inst ?inp2"
    by (simp_all add: demo_run_pipeline_def demo_diff_input_def)
  have m: "''llms'' \<in> set AllArtifacts" by (simp add: AllArtifacts_def)
  have one: "\<forall>a \<in> set AllArtifacts.
      cache_hit demo_X demo_sched ?p (json_Marshal demo_X demo_IR) (din_lockFile ?inp) a = (a \<noteq> ''llms'')"
    by (simp add: cache_hit_def IsUpToDate_def inputHash_def SystemPromptFor_def systemPrompt_def
        RelevantSections_def range_map_def demo_defs demo_IR_def demo_run_pipeline_def
        demo_diff_input_def AllArtifacts_def Let_def)
  have all: "\<forall>a \<in> set AllArtifacts.
      cache_hit demo_X demo_sched ?p (json_Marshal demo_X demo_IR) (din_lockFile ?inp2) a"
    by (simp add: cache_hit_def IsUpToDate_def inputHash_def SystemPromptFor_def systemPrompt_def
        RelevantSections_def range_map_def demo_defs demo_IR_def demo_run_pipeline_def
        demo_diff_input_def AllArtifacts_def Let_def)
  note t = drift_query_reports_stale_artifacts [OF demo_diff_ProcessSources i(1), of demo_X demo_sched]
  note t2 = drift_query_reports_stale_artifacts [OF demo_diff_ProcessSources i(2), of demo_X demo_sched]
  from t m one have a: "drifted_ids (runDiff demo_X demo_sched ?inp) = [''llms'']" by blast
  with t have b: "exit_status (runDiff demo_X demo_sched ?inp) = 1" by simp
  from t have c: "diff_error (runDiff demo_X demo_sched ?inp) = None"
    and d: "diff_effects (runDiff demo_X demo_sched ?inp) = []"
    and e: "diff_lock_out (runDiff demo_X demo_sched ?inp) = ?lock"
    by (simp_all add: demo_diff_input_def)
  from t2 all have f: "drifted_ids (runDiff demo_X demo_sched ?inp2) = []"
    by (simp add: filter_empty_conv)
  with t2 have g: "exit_status (runDiff demo_X demo_sched ?inp2) = 0"
    by (simp add: demo_diff_input_def)
  from a b c d e f g show ?thesis by simp
qed

text \<open>
  C8 as stated fails. The instructions disable the artifact \<open>scripts\<close>; the LockFile holds
  the current input hash of each of the seven enabled artifacts (what a full run of
  \<open>runGenerate\<close> leaves). No enabled artifact disagrees with its entry, and the query
  reports \<open>scripts\<close>, which is not enabled, and exits with status 1.
\<close>

theorem drift_query_reports_disabled_artifact:
  "enabledArtifacts demo_X (demo_run_pipeline [] Map.empty)
     = [''skill'', ''reference'', ''examples'', ''llms'', ''llms-api'', ''llms-full'', ''changelog'']
   \<and> filter (\<lambda>aid. \<not> cache_hit demo_X demo_sched (demo_run_pipeline [] Map.empty)
                      (json_Marshal demo_X demo_IR)
                      (demo_lock [''skill'', ''reference'', ''examples'', ''llms'', ''llms-api'',
                                  ''llms-full'', ''changelog'']) aid)
       (enabledArtifacts demo_X (demo_run_pipeline [] Map.empty)) = []
   \<and> drifted_ids (runDiff demo_X demo_sched (demo_diff_input
        (demo_lock [''skill'', ''reference'', ''examples'', ''llms'', ''llms-api'', ''llms-full'',
                    ''changelog''])))
     = [''scripts'']
   \<and> exit_status (runDiff demo_X demo_sched (demo_diff_input
        (demo_lock [''skill'', ''reference'', ''examples'', ''llms'', ''llms-api'', ''llms-full'',
                    ''changelog''])))
     = 1"
proof -
  have en: "enabledArtifacts demo_X (demo_run_pipeline [] Map.empty)
     = [''skill'', ''reference'', ''examples'', ''llms'', ''llms-api'', ''llms-full'', ''changelog'']"
    by (simp add: enabledArtifacts_def demo_run_pipeline_def demo_opts_def demo_inst_def
        demo_toggles_def AllArtifacts_def)
  have hits: "filter (\<lambda>aid. \<not> cache_hit demo_X demo_sched (demo_run_pipeline [] Map.empty)
                      (json_Marshal demo_X demo_IR)
                      (demo_lock [''skill'', ''reference'', ''examples'', ''llms'', ''llms-api'',
                                  ''llms-full'', ''changelog'']) aid)
       (enabledArtifacts demo_X (demo_run_pipeline [] Map.empty)) = []"
    unfolding en
    by (simp add: cache_hit_def IsUpToDate_def inputHash_def SystemPromptFor_def systemPrompt_def
        RelevantSections_def range_map_def demo_defs demo_IR_def demo_run_pipeline_def Let_def)
  have ids: "drifted_ids (runDiff demo_X demo_sched (demo_diff_input
        (demo_lock [''skill'', ''reference'', ''examples'', ''llms'', ''llms-api'', ''llms-full'',
                    ''changelog''])))
     = [''scripts'']"
    by (simp add: diff_defs demo_ProcessSources)
  have ex: "exit_status (runDiff demo_X demo_sched (demo_diff_input
        (demo_lock [''skill'', ''reference'', ''examples'', ''llms'', ''llms-api'', ''llms-full'',
                    ''changelog''])))
     = 1"
    by (simp add: diff_defs demo_ProcessSources)
  from en hits ids ex show ?thesis by blast
qed

section \<open>First match, fail fast, warnings accumulate\<close>

text \<open>
  C7. (1) \<open>Registry.Detect\<close> returns the first registered plugin whose \<open>Detect\<close> is true,
  and an error when there is none. (2) A source fails exactly when no plugin matches it,
  or its fetch fails, or its parse fails; validation has no part in it. (3) When some
  source fails, \<open>ProcessSources\<close> returns the error of the first failing source, whatever
  comes after it. (4) When no source fails, it returns no error, and the warnings are
  those of every source, concatenated in source order. (5) When some source fails,
  \<open>runGenerate\<close> returns the error with no effect: nothing is generated or written.
\<close>

theorem registry_contract:
  "(Registry_Detect r src =
      (case List.find (\<lambda>p. Detect p src) (plugins r) of
         Some p \<Rightarrow> Inr p
       | None \<Rightarrow> Inl (''no plugin can handle spec source (registered: ''
                        @ fmt_v (map Name (plugins r)) @ '')'')))
   \<and> (source_fails r src =
      (case List.find (\<lambda>p. Detect p src) (plugins r) of
         None \<Rightarrow> True
       | Some p \<Rightarrow> (case Fetch p src of Inl e \<Rightarrow> True | Inr raw \<Rightarrow> isl (Parse p raw src))))
   \<and> ((\<exists>s \<in> set sources. source_fails r s) \<longrightarrow>
        (\<exists>s. List.find (source_fails r) sources = Some s
           \<and> snd (snd (ProcessSources r sources)) = Some (error_of r s)))
   \<and> ((\<forall>s \<in> set sources. \<not> source_fails r s) \<longrightarrow>
        snd (ProcessSources r sources) = (concat (map (warnings_of r) sources), None))
   \<and> ((\<exists>s \<in> set (in_sources inp). source_fails (in_registry inp) s) \<longrightarrow>
        (\<exists>e. exit_error (runGenerate X sched inp) = Some (''processing specs: '' @ e))
        \<and> effects (runGenerate X sched inp) = []
        \<and> results_out (runGenerate X sched inp) = []
        \<and> lock_out (runGenerate X sched inp) = in_lockFile inp)"
proof (intro conjI impI)
  show "Registry_Detect r src =
      (case List.find (\<lambda>p. Detect p src) (plugins r) of
         Some p \<Rightarrow> Inr p
       | None \<Rightarrow> Inl (''no plugin can handle spec source (registered: ''
                        @ fmt_v (map Name (plugins r)) @ '')''))"
    by (simp add: Registry_Detect_def detect_loop_find)
next
  show "source_fails r src =
      (case List.find (\<lambda>p. Detect p src) (plugins r) of
         None \<Rightarrow> True
       | Some p \<Rightarrow> (case Fetch p src of Inl e \<Rightarrow> True | Inr raw \<Rightarrow> isl (Parse p raw src)))"
    by (rule source_fails_iff)
next
  assume "\<exists>s \<in> set sources. source_fails r s"
  then obtain s where f: "List.find (source_fails r) sources = Some s"
    using find_source_fails by blast
  have "ProcessSources r sources = (None, [], Some (error_of r s))"
    unfolding ProcessSources_def by (rule process_loop_fail [OF f])
  with f show "\<exists>s. List.find (source_fails r) sources = Some s
           \<and> snd (snd (ProcessSources r sources)) = Some (error_of r s)"
    by simp
next
  assume "\<forall>s \<in> set sources. \<not> source_fails r s"
  then show "snd (ProcessSources r sources) = (concat (map (warnings_of r) sources), None)"
    unfolding ProcessSources_def by (simp add: process_loop_ok)
next
  assume "\<exists>s \<in> set (in_sources inp). source_fails (in_registry inp) s"
  then obtain s where f: "List.find (source_fails (in_registry inp)) (in_sources inp) = Some s"
    using find_source_fails by blast
  have P: "ProcessSources (in_registry inp) (in_sources inp) = (None, [], Some (error_of (in_registry inp) s))"
    unfolding ProcessSources_def by (rule process_loop_fail [OF f])
  show "\<exists>e. exit_error (runGenerate X sched inp) = Some (''processing specs: '' @ e)"
    and "effects (runGenerate X sched inp) = []"
    and "results_out (runGenerate X sched inp) = []"
    and "lock_out (runGenerate X sched inp) = in_lockFile inp"
    by (simp_all add: runGenerate_def P)
qed

theorem registry_contract_witness:
  "(\<exists>p. Registry_Detect demo_registry (demo_source ''cli'' ''a'') = Inr p \<and> Name p = ''cli'')
   \<and> source_fails demo_registry (demo_source ''codebase'' ''.'')
   \<and> source_fails demo_registry (demo_source ''cli'' [])
   \<and> source_fails demo_registry (demo_source ''openapi'' ''bad'')
   \<and> snd (snd (ProcessSources demo_registry
         [demo_source ''cli'' ''a'', demo_source ''openapi'' ''bad'', demo_source ''codebase'' ''.'']))
       = Some ''[openapi] parse: syntax''
   \<and> snd (ProcessSources demo_registry [demo_source ''cli'' ''a'', demo_source ''openapi'' ''b''])
       = ([\<lparr>Message = ''no auth in a'', Path = ''cli''\<rparr>,
           \<lparr>Message = ''no auth in b'', Path = ''openapi''\<rparr>], None)
   \<and> exit_error (runGenerate demo_X demo_sched
         ((demo_input [] False False Map.empty Map.empty)
            \<lparr>in_sources := [demo_source ''cli'' ''a'', demo_source ''openapi'' ''bad'']\<rparr>))
       = Some ''processing specs: [openapi] parse: syntax''
   \<and> effects (runGenerate demo_X demo_sched
         ((demo_input [] False False Map.empty Map.empty)
            \<lparr>in_sources := [demo_source ''cli'' ''a'', demo_source ''openapi'' ''bad'']\<rparr>))
       = []"
proof -
  let ?a = "demo_source ''cli'' ''a''"
  let ?b = "demo_source ''openapi'' ''b''"
  let ?bad = "demo_source ''openapi'' ''bad''"
  let ?none = "demo_source ''codebase'' ''.''"
  have ok: "\<not> source_fails demo_registry ?a" "\<not> source_fails demo_registry ?b"
    by (simp_all add: source_fails_def demo_outcome_ok)
  have ko: "source_fails demo_registry ?bad" "source_fails demo_registry ?none"
    "source_fails demo_registry (demo_source ''cli'' [])"
    by (simp_all add: source_fails_def demo_outcome_fail)
  have d: "\<exists>p. Registry_Detect demo_registry ?a = Inr p \<and> Name p = ''cli''"
    using registry_contract [where r = demo_registry and src = ?a, THEN conjunct1]
    by (simp add: demo_registry_def Register_def NewRegistry_def demo_plugin_def demo_source_def)
  have f: "snd (snd (ProcessSources demo_registry [?a, ?bad, ?none])) = Some ''[openapi] parse: syntax''"
    using registry_contract [where r = demo_registry and sources = "[?a, ?bad, ?none]",
        THEN conjunct2, THEN conjunct2, THEN conjunct1] ok ko
    by (simp add: error_of_def demo_outcome_fail)
  have w: "snd (ProcessSources demo_registry [?a, ?b])
       = ([\<lparr>Message = ''no auth in a'', Path = ''cli''\<rparr>,
           \<lparr>Message = ''no auth in b'', Path = ''openapi''\<rparr>], None)"
    using registry_contract [where r = demo_registry and sources = "[?a, ?b]",
        THEN conjunct2, THEN conjunct2, THEN conjunct2, THEN conjunct1] ok
    by (simp add: warnings_of_def demo_outcome_ok)
  let ?inp = "(demo_input [] False False Map.empty Map.empty)
            \<lparr>in_sources := [demo_source ''cli'' ''a'', demo_source ''openapi'' ''bad'']\<rparr>"
  have "\<exists>s \<in> set (in_sources ?inp). source_fails (in_registry ?inp) s"
    using ko(1) by (simp add: demo_input_def)
  with registry_contract [where inp = ?inp and X = demo_X and sched = demo_sched,
      THEN conjunct2, THEN conjunct2, THEN conjunct2, THEN conjunct2]
  have g: "effects (runGenerate demo_X demo_sched ?inp) = []" by blast
  have x: "exit_error (runGenerate demo_X demo_sched ?inp) = Some ''processing specs: [openapi] parse: syntax''"
    by (simp add: runGenerate_def demo_input_def ProcessSources_def process_loop_step
        demo_outcome_ok demo_outcome_fail del: process_loop.simps(2))
  from d f w ko g x show ?thesis by simp
qed


section \<open>The hash input built from the sections\<close>

definition two_sections :: "string \<rightharpoonup> string" where
  "two_sections = [''A'' \<mapsto> ''x'', ''B'' \<mapsto> ''y'']"

definition two_sections_input :: "LockFile \<Rightarrow> (string, string, string, string, unit) GenerateInput" where
  "two_sections_input lock =
     (demo_input [''skill''] False False Map.empty lock)\<lparr>in_inst := demo_inst two_sections\<rparr>"

definition sched_with :: "string list \<Rightarrow> Sched" where
  "sched_with order =
     \<lparr>finish_order = [], msg_order = (\<lambda>a. order), check_order = (\<lambda>a. order),
      update_order = (\<lambda>a. order)\<rparr>"

lemma two_sections_first_run:
  "lock_out (runGenerate demo_X (sched_with [''A'', ''B'']) (two_sections_input Map.empty))
     = [''skill'' \<mapsto>
          \<lparr>InputHash = ''a,a2|A'' @ nl @ ''x'' @ nl @ nl @ ''B'' @ nl @ ''y|P:skill'',
           OutputHash = ''sha(FRESH<P:skill>)'', Model = ''m1'', UpdatedAt = ''now''\<rparr>]"
  by (simp add: run_defs demo_defs demo_ProcessSources demo_normalize_ids two_sections_input_def
      sched_with_def two_sections_def)

text \<open>
  C1. For the artifacts \<open>skill\<close>, \<open>llms-full\<close> and \<open>scripts\<close>, \<open>RelevantSections\<close> joins the
  sections in the order of the map iteration. With the two sections \<open>A\<close> and \<open>B\<close> the
  runtime may visit \<open>A, B\<close> in one run and \<open>B, A\<close> in the next, and the two runs build
  different strings for the same instructions: the input of the hash is not the same.
  So a second run on the LockFile the first run left, with nothing changed, calls the
  provider for \<open>skill\<close> again when its iteration takes the other order, and does not
  when it takes the same order.
\<close>

theorem relevant_sections_depend_on_iteration_order:
  "iteration_order [''A'', ''B''] two_sections
   \<and> iteration_order [''B'', ''A''] two_sections
   \<and> RelevantSections [''A'', ''B''] (build_pipeline (two_sections_input Map.empty) demo_IR None) ArtifactSkill
       = ''A'' @ nl @ ''x'' @ nl @ nl @ ''B'' @ nl @ ''y''
   \<and> RelevantSections [''B'', ''A''] (build_pipeline (two_sections_input Map.empty) demo_IR None) ArtifactSkill
       = ''B'' @ nl @ ''y'' @ nl @ nl @ ''A'' @ nl @ ''x''
   \<and> RelevantSections [''A'', ''B''] (build_pipeline (two_sections_input Map.empty) demo_IR None) ArtifactSkill
       \<noteq> RelevantSections [''B'', ''A''] (build_pipeline (two_sections_input Map.empty) demo_IR None) ArtifactSkill
   \<and> map effect_artifact (filter is_Generate
        (effects (runGenerate demo_X (sched_with [''B'', ''A''])
           (two_sections_input
              (lock_out (runGenerate demo_X (sched_with [''A'', ''B'']) (two_sections_input Map.empty)))))))
       = [Some ''skill'']
   \<and> filter is_Generate
        (effects (runGenerate demo_X (sched_with [''A'', ''B''])
           (two_sections_input
              (lock_out (runGenerate demo_X (sched_with [''A'', ''B'']) (two_sections_input Map.empty))))))
       = []"
proof -
  have o: "iteration_order [''A'', ''B''] two_sections" "iteration_order [''B'', ''A''] two_sections"
    by (auto simp: iteration_order_def two_sections_def)
  have s: "RelevantSections [''A'', ''B''] (build_pipeline (two_sections_input Map.empty) demo_IR None) ArtifactSkill
       = ''A'' @ nl @ ''x'' @ nl @ nl @ ''B'' @ nl @ ''y''"
    "RelevantSections [''B'', ''A''] (build_pipeline (two_sections_input Map.empty) demo_IR None) ArtifactSkill
       = ''B'' @ nl @ ''y'' @ nl @ nl @ ''A'' @ nl @ ''x''"
    by (simp_all add: RelevantSections_def range_map_def build_pipeline_def two_sections_input_def
        demo_inst_def two_sections_def nl_def)
  have d: "RelevantSections [''A'', ''B''] (build_pipeline (two_sections_input Map.empty) demo_IR None) ArtifactSkill
       \<noteq> RelevantSections [''B'', ''A''] (build_pipeline (two_sections_input Map.empty) demo_IR None) ArtifactSkill"
    unfolding s by (simp add: nl_def)
  have r2: "map effect_artifact (filter is_Generate
        (effects (runGenerate demo_X (sched_with [''B'', ''A''])
           (two_sections_input
              (lock_out (runGenerate demo_X (sched_with [''A'', ''B'']) (two_sections_input Map.empty)))))))
       = [Some ''skill'']"
    unfolding two_sections_first_run
    by (simp add: run_defs demo_defs demo_ProcessSources demo_normalize_ids two_sections_input_def
        sched_with_def two_sections_def)
  have r1: "filter is_Generate
        (effects (runGenerate demo_X (sched_with [''A'', ''B''])
           (two_sections_input
              (lock_out (runGenerate demo_X (sched_with [''A'', ''B'']) (two_sections_input Map.empty))))))
       = []"
    unfolding two_sections_first_run
    by (simp add: run_defs demo_defs demo_ProcessSources demo_normalize_ids two_sections_input_def
        sched_with_def two_sections_def)
  from o s d r2 r1 show ?thesis by blast
qed

end
